theory Spec2Isabelle
  imports Main "HOL-Library.Monad_Syntax" "HOL-Library.Char_ord" "HOL-Library.List_Lexorder"
    "HOL-Library.AList"
begin

section \<open>JavaScript values\<close>

text \<open>
  The tools of \<^verbatim>\<open>src/tools/dashboard-tools.ts\<close> work on the JSON that the Metabase API
  returns, typed \<^verbatim>\<open>any\<close>. A value is modelled as it is after \<^verbatim>\<open>JSON.parse\<close>:
  \<^item> a number is an integer (identifiers, limits and stage numbers are integers; fractions,
    \<^verbatim>\<open>NaN\<close> and the exponent notation of very large numbers are outside the model);
  \<^item> a string is a list of code units;
  \<^item> an object is the list of its own properties in enumeration order, the keys pairwise
    distinct; a lookup takes the first binding of a key;
  \<^item> \<open>JUndefined\<close> is what reading a missing property gives, and \<open>JFunction\<close> is a method
    read from a prototype (the only one the code can reach is \<^verbatim>\<open>filter\<close> of an array).
  Objects and arrays built by different parses are different objects for
  \<^verbatim>\<open>SameValueZero\<close>; \<open>same_value_zero\<close> therefore never identifies two of them.
\<close>

datatype jsval =
    JUndefined
  | JNull
  | JBool bool
  | JNum int
  | JStr string
  | JArr "jsval list"
  | JObj "(string \<times> jsval) list"
  | JFunction

text \<open>Truthiness, as tested by \<^verbatim>\<open>if (v)\<close>, \<^verbatim>\<open>!v\<close>, \<^verbatim>\<open>a || b\<close> and \<^verbatim>\<open>a && b\<close>.\<close>

fun truthy :: "jsval \<Rightarrow> bool" where
  "truthy JUndefined = False"
| "truthy JNull = False"
| "truthy (JBool b) = b"
| "truthy (JNum n) = (n \<noteq> 0)"
| "truthy (JStr s) = (s \<noteq> [])"
| "truthy (JArr xs) = True"
| "truthy (JObj kvs) = True"
| "truthy JFunction = True"

text \<open>The decimal rendering of an integer, as a template literal produces it.\<close>

fun digits :: "nat \<Rightarrow> string" where
  "digits n =
     (if n < 10 then [''0123456789'' ! n]
      else digits (n div 10) @ [''0123456789'' ! (n mod 10)])"

definition num_to_string :: "int \<Rightarrow> string" where
  "num_to_string n = (if n < 0 then CHR ''-'' # digits (nat (- n)) else digits (nat n))"

fun join_comma :: "string list \<Rightarrow> string" where
  "join_comma [] = []"
| "join_comma [s] = s"
| "join_comma (s # t # ss) = s @ CHR '','' # join_comma (t # ss)"

text \<open>
  \<^verbatim>\<open>ToString\<close>, used by template literals, by property keys and by the default comparison
  of \<^verbatim>\<open>sort\<close>.
\<close>

fun to_string :: "jsval \<Rightarrow> string" where
  "to_string JUndefined = ''undefined''"
| "to_string JNull = ''null''"
| "to_string (JBool b) = (if b then ''true'' else ''false'')"
| "to_string (JNum n) = num_to_string n"
| "to_string (JStr s) = s"
| "to_string (JArr xs) =
     join_comma (map (\<lambda>x. case x of JUndefined \<Rightarrow> [] | JNull \<Rightarrow> [] | _ \<Rightarrow> to_string x) xs)"
| "to_string (JObj kvs) = ''[object Object]''"
| "to_string JFunction = ''function () { [native code] }''"

text \<open>\<^verbatim>\<open>typeof v === 'number'\<close> and \<^verbatim>\<open>typeof v === 'object'\<close> (true of \<^verbatim>\<open>null\<close> and of arrays).\<close>

definition is_number :: "jsval \<Rightarrow> bool" where
  "is_number v = (case v of JNum n \<Rightarrow> True | _ \<Rightarrow> False)"

definition typeof_object :: "jsval \<Rightarrow> bool" where
  "typeof_object v = (case v of JNull \<Rightarrow> True | JArr xs \<Rightarrow> True | JObj kvs \<Rightarrow> True | _ \<Rightarrow> False)"

definition nullish :: "jsval \<Rightarrow> bool" where
  "nullish v = (v = JUndefined \<or> v = JNull)"

text \<open>\<^verbatim>\<open>xs[i]\<close> on an array: reading past the end gives \<^verbatim>\<open>undefined\<close>.\<close>

definition idx :: "jsval list \<Rightarrow> nat \<Rightarrow> jsval" where
  "idx xs i = (if i < length xs then xs ! i else JUndefined)"

text \<open>\<^verbatim>\<open>a || b\<close>.\<close>

definition or_else :: "jsval \<Rightarrow> jsval \<Rightarrow> jsval" where
  "or_else a b = (if truthy a then a else b)"

text \<open>
  \<^verbatim>\<open>v.k\<close> for a receiver that is neither \<^verbatim>\<open>null\<close> nor \<^verbatim>\<open>undefined\<close>, for the member
  names the code reads (none of them is an index or a property of \<^verbatim>\<open>Object.prototype\<close>).
  \<open>read_member\<close> is the plain read, which throws a \<^verbatim>\<open>TypeError\<close> on a nullish receiver
  (\<open>None\<close>); \<open>opt_member\<close> is \<^verbatim>\<open>v?.k\<close>.
\<close>

fun member_of :: "jsval \<Rightarrow> string \<Rightarrow> jsval" where
  "member_of (JObj kvs) k = (case map_of kvs k of Some v \<Rightarrow> v | None \<Rightarrow> JUndefined)"
| "member_of (JArr xs) k = (if k = ''filter'' then JFunction else JUndefined)"
| "member_of v k = JUndefined"

definition read_member :: "jsval \<Rightarrow> string \<Rightarrow> jsval option" where
  "read_member v k = (if nullish v then None else Some (member_of v k))"

definition opt_member :: "jsval \<Rightarrow> string \<Rightarrow> jsval" where
  "opt_member v k = (if nullish v then JUndefined else member_of v k)"

text \<open>
  \<^verbatim>\<open>v.forEach(f)\<close> and \<^verbatim>\<open>v.map(f)\<close>: only an array has these methods, any other receiver
  throws (\<open>None\<close>).
\<close>

definition as_array :: "jsval \<Rightarrow> jsval list option" where
  "as_array v = (case v of JArr xs \<Rightarrow> Some xs | _ \<Rightarrow> None)"

definition map_array :: "(jsval \<Rightarrow> jsval) \<Rightarrow> jsval \<Rightarrow> jsval option" where
  "map_array f v = (case v of JArr xs \<Rightarrow> Some (JArr (map f xs)) | _ \<Rightarrow> None)"

text \<open>A loop over a list whose body may throw; the first exception ends it.\<close>

fun fold_opt :: "('a \<Rightarrow> 's \<Rightarrow> 's option) \<Rightarrow> 'a list \<Rightarrow> 's \<Rightarrow> 's option" where
  "fold_opt f [] s = Some s"
| "fold_opt f (x # xs) s = (case f x s of None \<Rightarrow> None | Some s' \<Rightarrow> fold_opt f xs s')"

text \<open>
  \<^verbatim>\<open>Object.entries(v)\<close>, which is also what the spread \<^verbatim>\<open>{...v}\<close> copies and whose keys
  \<^verbatim>\<open>Object.keys(v)\<close> lists: the own properties of an object, the indexed elements of an
  array or of a string, nothing for the other values.
\<close>

definition indexed :: "jsval list \<Rightarrow> (string \<times> jsval) list" where
  "indexed xs = map (\<lambda>i. (num_to_string (int i), xs ! i)) [0..<length xs]"

definition own_entries :: "jsval \<Rightarrow> (string \<times> jsval) list" where
  "own_entries v =
     (case v of
        JObj kvs \<Rightarrow> kvs
      | JArr xs \<Rightarrow> indexed xs
      | JStr s \<Rightarrow> indexed (map (\<lambda>c. JStr [c]) s)
      | _ \<Rightarrow> [])"

text \<open>
  \<^verbatim>\<open>rec[k] = v\<close> on the records the code builds: an existing key keeps its position, a new
  key is added last. \<open>lookup\<close> is \<^verbatim>\<open>rec[k]\<close>, for a key that is not the name of a
  property of \<^verbatim>\<open>Object.prototype\<close>.
\<close>

definition assign :: "'k \<Rightarrow> 'v \<Rightarrow> ('k \<times> 'v) list \<Rightarrow> ('k \<times> 'v) list" where
  "assign k v kvs = AList.update k v kvs"

definition lookup :: "('k \<times> jsval) list \<Rightarrow> 'k \<Rightarrow> jsval" where
  "lookup kvs k = (case map_of kvs k of Some v \<Rightarrow> v | None \<Rightarrow> JUndefined)"

text \<open>
  \<^verbatim>\<open>obj[k] = v\<close> for a string key computed at run time, on an object created as \<^verbatim>\<open>{}\<close>:
  the key \<^verbatim>\<open>__proto__\<close> is the prototype accessor, so assigning to it creates no own
  property (it replaces the prototype when \<open>v\<close> is an object, and does nothing otherwise).
  A spread \<^verbatim>\<open>{...v}\<close> defines its properties instead and keeps such a key. What a later
  read could find through a prototype replaced in this way is outside the model.
\<close>

definition set_member :: "string \<Rightarrow> 'v \<Rightarrow> (string \<times> 'v) list \<Rightarrow> (string \<times> 'v) list" where
  "set_member k v kvs = (if k = ''__proto__'' then kvs else assign k v kvs)"

text \<open>
  The enumeration order of a record keyed by numbers (\<^verbatim>\<open>Object.entries\<close>,
  \<^verbatim>\<open>Object.values\<close>): the keys that are array indices in ascending order, then the other
  keys in the order of their creation.
\<close>

definition is_index :: "int \<Rightarrow> bool" where
  "is_index k = (0 \<le> k \<and> k \<le> 4294967294)"

definition record_entries :: "(int \<times> 'v) list \<Rightarrow> (int \<times> 'v) list" where
  "record_entries kvs =
     sort_key fst (filter (\<lambda>kv. is_index (fst kv)) kvs) @ filter (\<lambda>kv. \<not> is_index (fst kv)) kvs"

text \<open>\<^verbatim>\<open>SameValueZero\<close>, the equality of \<^verbatim>\<open>Array.prototype.includes\<close> and of \<^verbatim>\<open>Set\<close>.\<close>

definition same_value_zero :: "jsval \<Rightarrow> jsval \<Rightarrow> bool" where
  "same_value_zero a b =
     (case a of JArr xs \<Rightarrow> False | JObj kvs \<Rightarrow> False | JFunction \<Rightarrow> False | _ \<Rightarrow> a = b)"

definition includes_val :: "jsval list \<Rightarrow> jsval \<Rightarrow> bool" where
  "includes_val xs v = list_ex (\<lambda>u. same_value_zero u v) xs"

text \<open>\<^verbatim>\<open>[...new Set(vs)]\<close>: the first occurrence of every value, in order.\<close>

definition new_Set :: "jsval list \<Rightarrow> jsval list" where
  "new_Set vs = fold (\<lambda>v acc. if includes_val acc v then acc else acc @ [v]) vs []"

section \<open>The query tree resolver\<close>

text \<open>
  \<^verbatim>\<open>fieldLookup\<close> is keyed by the string of the field id and holds
  \<^verbatim>\<open>{ name, table }\<close>; \<^verbatim>\<open>tableNames\<close> is keyed by the table id.
\<close>

record field_info =
  name :: jsval
  table :: jsval

type_synonym field_lookup = "(string \<times> field_info) list"

type_synonym name_lookup = "(int \<times> jsval) list"

text \<open>
  The test \<^verbatim>\<open>ref[0] === 'field' && typeof ref[1] === 'number'\<close> of \<^verbatim>\<open>resolveFieldRef\<close>;
  it gives the field id when it holds.
\<close>

definition field_ref_id :: "jsval list \<Rightarrow> int option" where
  "field_ref_id ref =
     (case idx ref 1 of
        JNum n \<Rightarrow> if idx ref 0 = JStr ''field'' then Some n else None
      | _ \<Rightarrow> None)"

text \<open>\<^verbatim>\<open>fieldInfo?.name || `field_${ref[1]}`\<close>.\<close>

definition field_name :: "field_lookup \<Rightarrow> int \<Rightarrow> jsval" where
  "field_name fieldLookup n =
     or_else (case map_of fieldLookup (num_to_string n) of
                None \<Rightarrow> JUndefined
              | Some fieldInfo \<Rightarrow> name fieldInfo)
             (JStr (''field_'' @ num_to_string n))"

fun resolveFieldRef :: "field_lookup \<Rightarrow> jsval \<Rightarrow> jsval" where
  "resolveFieldRef fieldLookup (JArr ref) =
     (case field_ref_id ref of
        Some n \<Rightarrow>
          (if truthy (idx ref 2) \<and> typeof_object (idx ref 2)
           then JArr [JStr ''field'', field_name fieldLookup n, idx ref 2]
           else JArr [JStr ''field'', field_name fieldLookup n])
      | None \<Rightarrow> JArr (map (resolveFieldRef fieldLookup) ref))"
| "resolveFieldRef fieldLookup v = v"

text \<open>\<^verbatim>\<open>tableNames[id] || `table_${id}`\<close>.\<close>

definition table_name :: "name_lookup \<Rightarrow> int \<Rightarrow> jsval" where
  "table_name tableNames n = or_else (lookup tableNames n) (JStr (''table_'' @ num_to_string n))"

text \<open>
  \<^verbatim>\<open>if (query.k) resolved.k = query.k.map(resolveFieldRef)\<close>, the shape of the
  \<^verbatim>\<open>aggregation\<close>, \<^verbatim>\<open>breakout\<close>, \<^verbatim>\<open>order-by\<close> and \<^verbatim>\<open>fields\<close> members: the list of
  members it adds to \<^verbatim>\<open>resolved\<close>.
\<close>

definition mapped_member :: "field_lookup \<Rightarrow> jsval \<Rightarrow> string \<Rightarrow> (string \<times> jsval) list option" where
  "mapped_member fieldLookup query k =
     (if truthy (member_of query k)
      then map_option (\<lambda>v. [(k, v)]) (map_array (resolveFieldRef fieldLookup) (member_of query k))
      else Some [])"

text \<open>The body of \<^verbatim>\<open>query.joins.map\<close>: the spread of \<^verbatim>\<open>j\<close>, then the two members set.\<close>

definition resolve_join :: "name_lookup \<Rightarrow> field_lookup \<Rightarrow> jsval \<Rightarrow> jsval option" where
  "resolve_join tableNames fieldLookup j =
     (if nullish j then None
      else Some (JObj
        (assign ''condition'' (resolveFieldRef fieldLookup (member_of j ''condition''))
          (assign ''source-table''
             (case member_of j ''source-table'' of
                JNum n \<Rightarrow> table_name tableNames n
              | v \<Rightarrow> v)
             (own_entries j)))))"

text \<open>
  The statements of \<^verbatim>\<open>resolveMbql\<close> that cannot throw, each as the list of members it
  adds to \<^verbatim>\<open>resolved\<close>: \<^verbatim>\<open>source-table\<close>, \<^verbatim>\<open>filter\<close>, \<^verbatim>\<open>limit\<close> and
  \<^verbatim>\<open>expressions\<close>. \<open>assigned_expressions\<close> is the loop
  \<^verbatim>\<open>for (const [name, expr] of Object.entries(query.expressions)) resolved.expressions[name] = ...\<close>
  on the fresh \<^verbatim>\<open>resolved.expressions = {}\<close>.
\<close>

definition resolved_source_table :: "name_lookup \<Rightarrow> jsval \<Rightarrow> (string \<times> jsval) list" where
  "resolved_source_table tableNames query =
     (case member_of query ''source-table'' of
        JNum n \<Rightarrow> if n \<noteq> 0 then [(''source-table'', table_name tableNames n)] else []
      | _ \<Rightarrow> [])"

definition resolved_filter :: "field_lookup \<Rightarrow> jsval \<Rightarrow> (string \<times> jsval) list" where
  "resolved_filter fieldLookup query =
     (if truthy (member_of query ''filter'')
      then [(''filter'', resolveFieldRef fieldLookup (member_of query ''filter''))]
      else [])"

definition copied_limit :: "jsval \<Rightarrow> (string \<times> jsval) list" where
  "copied_limit query =
     (if truthy (member_of query ''limit'') then [(''limit'', member_of query ''limit'')] else [])"

definition assigned_expressions :: "field_lookup \<Rightarrow> (string \<times> jsval) list \<Rightarrow> (string \<times> jsval) list" where
  "assigned_expressions fieldLookup entries =
     fold (\<lambda>kv obj. set_member (fst kv) (resolveFieldRef fieldLookup (snd kv)) obj) entries []"

definition resolved_expressions :: "field_lookup \<Rightarrow> jsval \<Rightarrow> (string \<times> jsval) list" where
  "resolved_expressions fieldLookup query =
     (if truthy (member_of query ''expressions'')
      then [(''expressions'',
             JObj (assigned_expressions fieldLookup (own_entries (member_of query ''expressions''))))]
      else [])"

definition resolved_joins ::
  "name_lookup \<Rightarrow> field_lookup \<Rightarrow> jsval \<Rightarrow> (string \<times> jsval) list option" where
  "resolved_joins tableNames fieldLookup query =
     (if truthy (member_of query ''joins'')
      then do {
        js \<leftarrow> as_array (member_of query ''joins'');
        rs \<leftarrow> those (map (resolve_join tableNames fieldLookup) js);
        Some [(''joins'', JArr rs)]
      }
      else Some [])"

text \<open>
  \<^verbatim>\<open>resolveMbql\<close>. The members of \<^verbatim>\<open>resolved\<close> are listed in the order in which the code
  sets them.
\<close>

definition resolveMbql :: "name_lookup \<Rightarrow> field_lookup \<Rightarrow> jsval \<Rightarrow> jsval option" where
  "resolveMbql tableNames fieldLookup query =
     (if \<not> truthy query then Some query
      else do {
        aggregation \<leftarrow> mapped_member fieldLookup query ''aggregation'';
        breakout \<leftarrow> mapped_member fieldLookup query ''breakout'';
        order_by \<leftarrow> mapped_member fieldLookup query ''order-by'';
        joins \<leftarrow> resolved_joins tableNames fieldLookup query;
        fields \<leftarrow> mapped_member fieldLookup query ''fields'';
        Some (JObj (resolved_source_table tableNames query @ aggregation @ breakout
                    @ resolved_filter fieldLookup query @ order_by @ joins @ fields
                    @ copied_limit query @ resolved_expressions fieldLookup query))
      })"

section \<open>The dashboard query extractor\<close>

text \<open>
  The two calls of the Metabase client that the tools make; \<open>None\<close> is a rejected promise.
  The object a tool returns is modelled before \<^verbatim>\<open>JSON.stringify\<close>; an exception anywhere
  in \<^verbatim>\<open>execute\<close> is rethrown by its outer \<^verbatim>\<open>catch\<close> and is the result \<open>None\<close>.
\<close>

record metabaseClient =
  getDashboard :: "int \<Rightarrow> jsval option"
  getTableQueryMetadata :: "int \<Rightarrow> jsval option"

definition build_tabLookup :: "jsval list \<Rightarrow> (string \<times> jsval) list option" where
  "build_tabLookup tabs =
     fold_opt (\<lambda>t tabLookup.
        if nullish t then None
        else Some (set_member (to_string (member_of t ''id'')) (member_of t ''name'') tabLookup))
       tabs []"

text \<open>
  \<^verbatim>\<open>if (v && typeof v === 'number') tableIds.add(v)\<close>; the \<^verbatim>\<open>Set\<close> is the list of its
  elements in insertion order.
\<close>

definition add_table_id :: "jsval \<Rightarrow> int list \<Rightarrow> int list" where
  "add_table_id v tableIds =
     (case v of
        JNum n \<Rightarrow> if n \<noteq> 0 \<and> n \<notin> set tableIds then tableIds @ [n] else tableIds
      | _ \<Rightarrow> tableIds)"

definition collect_card :: "jsval \<Rightarrow> int list \<Rightarrow> int list option" where
  "collect_card dc tableIds = do {
     c \<leftarrow> read_member dc ''card'';
     let card = or_else c (JObj []);
     let query = opt_member (member_of card ''dataset_query'') ''query'';
     let tableIds = add_table_id (opt_member query ''source-table'') tableIds;
     if truthy (opt_member query ''joins'')
     then do {
       joins \<leftarrow> as_array (member_of query ''joins'');
       fold_opt (\<lambda>j ids. map_option (\<lambda>v. add_table_id v ids) (read_member j ''source-table''))
         joins tableIds
     }
     else Some tableIds
   }"

definition collect_table_ids :: "jsval list \<Rightarrow> int list option" where
  "collect_table_ids dashcards = fold_opt collect_card dashcards []"

text \<open>
  The metadata loop. \<open>calls\<close> logs every invocation of \<^verbatim>\<open>getTableQueryMetadata\<close>. The
  \<^verbatim>\<open>try\<close> block stores the metadata before it reads \<^verbatim>\<open>metadata.schema\<close>, so a
  \<^verbatim>\<open>null\<close> response is stored and then caught like a failed fetch. \<open>unknown_table\<close> is
  the name bound in the \<^verbatim>\<open>catch\<close> block, \<open>qualified_name\<close> the one built in the
  \<^verbatim>\<open>try\<close> block.
\<close>

record fetch_state =
  calls :: "int list"
  table_metadata :: "(int \<times> jsval) list"
  table_names :: name_lookup

definition unknown_table :: "int \<Rightarrow> jsval" where
  "unknown_table tableId = JStr (''unknown_table_'' @ num_to_string tableId)"

definition qualified_name :: "int \<Rightarrow> jsval \<Rightarrow> jsval" where
  "qualified_name tableId metadata =
     (let schema = or_else (member_of metadata ''schema'') (JStr []);
          tableName = or_else (member_of metadata ''name'') (JStr (''table_'' @ num_to_string tableId))
      in if truthy schema then JStr (to_string schema @ ''.'' @ to_string tableName) else tableName)"

definition fetch_table :: "(int \<Rightarrow> jsval option) \<Rightarrow> int \<Rightarrow> fetch_state \<Rightarrow> fetch_state" where
  "fetch_table fetcher tableId st =
     (let st1 = st\<lparr>calls := calls st @ [tableId]\<rparr>
      in case fetcher tableId of
           None \<Rightarrow> st1\<lparr>table_names := assign tableId (unknown_table tableId) (table_names st1)\<rparr>
         | Some metadata \<Rightarrow>
             (let st2 = st1\<lparr>table_metadata := assign tableId metadata (table_metadata st1)\<rparr>
              in if nullish metadata
                 then st2\<lparr>table_names := assign tableId (unknown_table tableId) (table_names st2)\<rparr>
                 else st2\<lparr>table_names :=
                        assign tableId (qualified_name tableId metadata) (table_names st2)\<rparr>))"

definition fetch_all :: "(int \<Rightarrow> jsval option) \<Rightarrow> int list \<Rightarrow> fetch_state" where
  "fetch_all fetcher tableIds =
     fold (fetch_table fetcher) tableIds \<lparr>calls = [], table_metadata = [], table_names = []\<rparr>"

text \<open>The field lookup, built from the stored metadata; this loop is outside the \<^verbatim>\<open>try\<close>.\<close>

definition add_fields :: "name_lookup \<Rightarrow> int \<times> jsval \<Rightarrow> field_lookup \<Rightarrow> field_lookup option" where
  "add_fields tableNames entry fieldLookup =
     (case entry of (tableId, metadata) \<Rightarrow> do {
        fs \<leftarrow> read_member metadata ''fields'';
        fields \<leftarrow> as_array (or_else fs (JArr []));
        let tableName = lookup tableNames tableId;
        fold_opt (\<lambda>f fl.
           if nullish f then None
           else Some (set_member (to_string (member_of f ''id''))
                        \<lparr>name = member_of f ''name'', table = tableName\<rparr> fl))
          fields fieldLookup
      })"

definition build_fieldLookup :: "fetch_state \<Rightarrow> field_lookup option" where
  "build_fieldLookup st =
     fold_opt (add_fields (table_names st)) (record_entries (table_metadata st)) []"

text \<open>The summary of one dashcard: virtual, native or MBQL.\<close>

definition card_summary ::
  "(string \<times> jsval) list \<Rightarrow> name_lookup \<Rightarrow> field_lookup \<Rightarrow> jsval \<Rightarrow> jsval option" where
  "card_summary tabLookup tableNames fieldLookup dc = do {
     c \<leftarrow> read_member dc ''card'';
     let card = or_else c (JObj []);
     let datasetQuery = or_else (member_of card ''dataset_query'') (JObj []);
     let tabName =
       (if truthy (member_of dc ''dashboard_tab_id'')
        then lookup tabLookup (to_string (member_of dc ''dashboard_tab_id''))
        else JNull);
     if \<not> truthy (member_of dc ''card_id'')
     then
       (let vizSettings = or_else (member_of dc ''visualization_settings'') (JObj [])
        in Some (JObj
             [(''dashcard_id'', member_of dc ''id''),
              (''card_id'', JNull),
              (''card_name'', JStr ''(virtual card)''),
              (''tab'', tabName),
              (''query_type'', JStr ''virtual''),
              (''text'', or_else (member_of vizSettings ''text'') JNull)]))
     else if member_of datasetQuery ''type'' = JStr ''native''
     then
       (let native = or_else (member_of datasetQuery ''native'') (JObj [])
        in Some (JObj
             [(''dashcard_id'', member_of dc ''id''),
              (''card_id'', member_of dc ''card_id''),
              (''card_name'', or_else (member_of card ''name'') (JStr ''(unnamed)'')),
              (''tab'', tabName),
              (''query_type'', JStr ''native''),
              (''database_id'', member_of datasetQuery ''database''),
              (''sql'', or_else (member_of native ''query'') JNull),
              (''template_tags'',
                 if truthy (member_of native ''template-tags'')
                 then JArr (map (\<lambda>kv. JStr (fst kv))
                              (own_entries (member_of native ''template-tags'')))
                 else JArr [])]))
     else do {
       let query = or_else (member_of datasetQuery ''query'') (JObj []);
       mbql \<leftarrow> resolveMbql tableNames fieldLookup query;
       Some (JObj
         [(''dashcard_id'', member_of dc ''id''),
          (''card_id'', member_of dc ''card_id''),
          (''card_name'', or_else (member_of card ''name'') (JStr ''(unnamed)'')),
          (''tab'', tabName),
          (''query_type'', JStr ''mbql''),
          (''database_id'', member_of datasetQuery ''database''),
          (''mbql'', mbql)])
     }
   }"

text \<open>
  \<^verbatim>\<open>[...new Set(Object.values(tableNames))].sort()\<close>: the default sort compares the
  strings of the values by code units and is stable.
\<close>

definition tablesUsed :: "name_lookup \<Rightarrow> jsval list" where
  "tablesUsed tableNames = sort_key to_string (new_Set (map snd (record_entries tableNames)))"

text \<open>
  \<^verbatim>\<open>get_dashboard_queries\<close>: the log of the metadata calls it made, and its result.
\<close>

definition get_dashboard_queries :: "metabaseClient \<Rightarrow> int \<Rightarrow> int list \<times> jsval option" where
  "get_dashboard_queries client dashboard_id =
     (case do {
             dashboard \<leftarrow> getDashboard client dashboard_id;
             dcs \<leftarrow> read_member dashboard ''dashcards'';
             dashcards \<leftarrow> as_array (or_else dcs (JArr []));
             tabs \<leftarrow> as_array (or_else (member_of dashboard ''tabs'') (JArr []));
             tabLookup \<leftarrow> build_tabLookup tabs;
             tableIds \<leftarrow> collect_table_ids dashcards;
             Some (dashboard, dashcards, tabLookup, tableIds)
           } of
        None \<Rightarrow> ([], None)
      | Some (dashboard, dashcards, tabLookup, tableIds) \<Rightarrow>
          (let st = fetch_all (getTableQueryMetadata client) tableIds
           in (calls st,
               do {
                 fieldLookup \<leftarrow> build_fieldLookup st;
                 cards \<leftarrow> those (map (card_summary tabLookup (table_names st) fieldLookup) dashcards);
                 Some (JObj
                   [(''dashboard_id'', JNum dashboard_id),
                    (''dashboard_name'', member_of dashboard ''name''),
                    (''total_cards'', JNum (int (length dashcards))),
                    (''cards'', JArr cards),
                    (''tables_used'', JArr (tablesUsed (table_names st)))])
               })))"

section \<open>The filter connectivity auditor\<close>

record card_audit =
  dashcard_id :: jsval
  card_id :: jsval
  card_name :: jsval
  source_table :: jsval
  is_native_query :: bool
  connected_params :: "jsval list"
  missing_params :: "jsval list"
  errors :: "string list"

record audit_report =
  dashboard_id :: int
  total_parameters :: nat
  parameter_ids :: "jsval list"
  total_cards :: nat
  cards_with_issues :: nat
  all_cards :: "card_audit list"
  cards_needing_attention :: "card_audit list"

text \<open>\<^verbatim>\<open>typeof t === 'object' && t !== null && 'stage-number' in t\<close>.\<close>

definition has_stage_number :: "jsval \<Rightarrow> bool" where
  "has_stage_number t =
     (typeof_object t \<and> t \<noteq> JNull \<and>
      (case t of JObj kvs \<Rightarrow> ''stage-number'' \<in> fst ` set kvs | _ \<Rightarrow> False))"

text \<open>The messages that the \<^verbatim>\<open>forEach\<close> over the mappings pushes for one mapping.\<close>

definition no_target_message :: "jsval \<Rightarrow> string" where
  "no_target_message m =
     ''Parameter '' @ [CHR 0x27] @ to_string (member_of m ''parameter_id'') @ [CHR 0x27]
     @ '' has no target''"

definition missing_stage_message :: "jsval \<Rightarrow> string" where
  "missing_stage_message m =
     ''Parameter '' @ [CHR 0x27] @ to_string (member_of m ''parameter_id'') @ [CHR 0x27]
     @ '' missing stage-number (MBQL cards require this)''"

definition mapping_errors :: "jsval \<Rightarrow> string list" where
  "mapping_errors m =
     (if \<not> truthy (member_of m ''target'') then [no_target_message m]
      else
        (case member_of m ''target'' of
           JArr target \<Rightarrow>
             if idx target 0 = JStr ''dimension'' \<and> \<not> list_ex has_stage_number target
             then [missing_stage_message m]
             else []
         | _ \<Rightarrow> []))"

definition audit_card :: "jsval list \<Rightarrow> jsval \<Rightarrow> card_audit option" where
  "audit_card parameterIds dc = do {
     c \<leftarrow> read_member dc ''card'';
     let card = or_else c (JObj []);
     mappings \<leftarrow> as_array (or_else (member_of dc ''parameter_mappings'') (JArr []));
     connectedParams \<leftarrow> those (map (\<lambda>m. read_member m ''parameter_id'') mappings);
     let missingParams = filter (\<lambda>pid. \<not> includes_val connectedParams pid) parameterIds;
     let errs = concat (map mapping_errors mappings);
     let st = opt_member (opt_member (member_of card ''dataset_query'') ''query'') ''source-table'';
     let sourceTable = (if truthy st then st else JNull);
     Some \<lparr>dashcard_id = member_of dc ''id'',
           card_id = member_of dc ''card_id'',
           card_name = or_else (member_of card ''name'') (JStr ''(virtual card)''),
           source_table = sourceTable,
           is_native_query = (opt_member (member_of card ''dataset_query'') ''type'' = JStr ''native''),
           connected_params = connectedParams,
           missing_params = missingParams,
           errors = errs\<rparr>
   }"

definition audit_dashboard_filters :: "metabaseClient \<Rightarrow> int \<Rightarrow> audit_report option" where
  "audit_dashboard_filters client dashboard_id_arg = do {
     dashboard \<leftarrow> getDashboard client dashboard_id_arg;
     dcs \<leftarrow> read_member dashboard ''dashcards'';
     dashcards \<leftarrow> as_array (or_else dcs (JArr []));
     parameters \<leftarrow> as_array (or_else (member_of dashboard ''parameters'') (JArr []));
     parameterIds \<leftarrow> those (map (\<lambda>p. read_member p ''id'') parameters);
     cardAudit \<leftarrow> those (map (audit_card parameterIds) dashcards);
     let cardsWithIssues =
       filter (\<lambda>c. length (missing_params c) > 0 \<or> length (errors c) > 0) cardAudit;
     Some \<lparr>dashboard_id = dashboard_id_arg,
           total_parameters = length parameters,
           parameter_ids = parameterIds,
           total_cards = length dashcards,
           cards_with_issues = length cardsWithIssues,
           all_cards = cardAudit,
           cards_needing_attention = cardsWithIssues\<rparr>
   }"

section \<open>Predicates of the data model\<close>

text \<open>
  In a query tree the options slot of a field reference holds an object or \<^verbatim>\<open>null\<close>, never
  a sequence: \<open>options_not_sequence\<close> says so of every field reference that the resolver
  meets in a tree. \<open>names_are_strings\<close> says that every name of a field lookup is a string.
\<close>

fun options_not_sequence :: "jsval \<Rightarrow> bool" where
  "options_not_sequence (JArr ref) =
     (case field_ref_id ref of
        Some n \<Rightarrow> (case idx ref 2 of JArr opts \<Rightarrow> False | _ \<Rightarrow> True)
      | None \<Rightarrow> list_all options_not_sequence ref)"
| "options_not_sequence v = True"

definition names_are_strings :: "field_lookup \<Rightarrow> bool" where
  "names_are_strings fieldLookup =
     list_all (\<lambda>kv. case name (snd kv) of JStr s \<Rightarrow> True | _ \<Rightarrow> False) fieldLookup"

text \<open>
  The members that \<^verbatim>\<open>resolveMbql\<close> can set, in the order in which it sets them; \<open>keyed k p\<close>
  says that the statement for the member \<open>k\<close> added nothing or the one member \<open>k\<close>.
\<close>

definition member_names :: "string list" where
  "member_names = [''source-table'', ''aggregation'', ''breakout'', ''filter'', ''order-by'',
                   ''joins'', ''fields'', ''limit'', ''expressions'']"

definition keyed :: "string \<Rightarrow> (string \<times> jsval) list \<Rightarrow> bool" where
  "keyed k p = (p = [] \<or> (\<exists>v. p = [(k, v)]))"

text \<open>
  The parts of a dashboard that the tools read with a default: \<^verbatim>\<open>dashboard.dashcards || []\<close>,
  \<^verbatim>\<open>dashboard.parameters || []\<close> and \<^verbatim>\<open>dc.parameter_mappings || []\<close>, as sequences (a value
  that is not a sequence has no elements). \<open>is_primitive\<close> holds of the values that
  \<^verbatim>\<open>SameValueZero\<close> compares by value.
\<close>

definition elements :: "jsval \<Rightarrow> jsval list" where
  "elements v = (case v of JArr xs \<Rightarrow> xs | _ \<Rightarrow> [])"

definition dashcards_of :: "jsval \<Rightarrow> jsval list" where
  "dashcards_of dashboard = elements (member_of dashboard ''dashcards'')"

definition parameters_of :: "jsval \<Rightarrow> jsval list" where
  "parameters_of dashboard = elements (member_of dashboard ''parameters'')"

definition mappings_of :: "jsval \<Rightarrow> jsval list" where
  "mappings_of dc = elements (member_of dc ''parameter_mappings'')"

definition is_primitive :: "jsval \<Rightarrow> bool" where
  "is_primitive v = (case v of JArr xs \<Rightarrow> False | JObj kvs \<Rightarrow> False | JFunction \<Rightarrow> False | _ \<Rightarrow> True)"




text \<open>The name that the metadata loop binds to a table id, given the fetcher.\<close>

definition bound_name :: "(int \<Rightarrow> jsval option) \<Rightarrow> int \<Rightarrow> jsval" where
  "bound_name fetcher tableId =
     (case fetcher tableId of
        None \<Rightarrow> unknown_table tableId
      | Some metadata \<Rightarrow>
          if nullish metadata then unknown_table tableId else qualified_name tableId metadata)"






text \<open>
  A member read as \<^verbatim>\<open>v || []\<close> and then iterated does not throw when it is a sequence or
  falsy, and its elements can be read when none of them is \<^verbatim>\<open>null\<close>.
\<close>

definition sequence_or_absent :: "jsval \<Rightarrow> bool" where
  "sequence_or_absent v = (\<not> truthy v \<or> (case v of JArr xs \<Rightarrow> True | _ \<Rightarrow> False))"

definition auditable :: "jsval \<Rightarrow> bool" where
  "auditable dashboard =
     (\<not> nullish dashboard
      \<and> sequence_or_absent (member_of dashboard ''parameters'')
      \<and> list_all (\<lambda>p. \<not> nullish p) (parameters_of dashboard)
      \<and> sequence_or_absent (member_of dashboard ''dashcards'')
      \<and> list_all (\<lambda>dc. \<not> nullish dc
                        \<and> sequence_or_absent (member_of dc ''parameter_mappings'')
                        \<and> list_all (\<lambda>m. \<not> nullish m) (mappings_of dc))
           (dashcards_of dashboard))"

section \<open>Example inputs\<close>

definition ex_fieldLookup :: field_lookup where
  "ex_fieldLookup =
     [(''10'', \<lparr>name = JStr ''CREATED_AT'', table = JStr ''PUBLIC.ORDERS''\<rparr>),
      (''20'', \<lparr>name = JStr ''AMOUNT'', table = JStr ''PUBLIC.ORDERS''\<rparr>)]"

definition ex_filter :: jsval where
  "ex_filter =
     JArr [JStr ''and'',
       JArr [JStr ''='', JArr [JStr ''field'', JNum 10, JNull], JStr ''active''],
       JArr [JStr ''>'', JArr [JStr ''field'', JNum 20, JObj [(''binning'', JNull)]], JNum 100]]"

definition ex_tableNames :: name_lookup where
  "ex_tableNames = [(2, JStr ''PUBLIC.ORDERS'')]"

definition ex_query :: jsval where
  "ex_query =
     JObj [(''source-table'', JNum 2),
           (''aggregation'', JArr [JArr [JStr ''sum'', JArr [JStr ''field'', JNum 20, JNull]]]),
           (''breakout'', JArr [JArr [JStr ''field'', JNum 10, JObj [(''temporal-unit'', JStr ''month'')]]]),
           (''filter'', JArr [JStr ''='', JArr [JStr ''field'', JNum 10, JNull], JStr ''active'']),
           (''order-by'', JArr [JArr [JStr ''desc'', JArr [JStr ''field'', JNum 20, JNull]]]),
           (''joins'', JArr [JObj [(''alias'', JStr ''P''), (''source-table'', JNum 777),
                                  (''condition'', JArr [JStr ''='', JArr [JStr ''field'', JNum 10, JNull],
                                                        JArr [JStr ''field'', JNum 999]])]]),
           (''fields'', JArr [JArr [JStr ''field'', JNum 10, JNull]]),
           (''limit'', JNum 5),
           (''expressions'', JObj [(''double'', JArr [JStr ''*'', JArr [JStr ''field'', JNum 20, JNull], JNum 2])]),
           (''page'', JObj [(''page'', JNum 1)])]"

definition ex_resolved :: jsval where
  "ex_resolved =
     JObj [(''source-table'', JStr ''PUBLIC.ORDERS''),
           (''aggregation'', JArr [JArr [JStr ''sum'', JArr [JStr ''field'', JStr ''AMOUNT'']]]),
           (''breakout'', JArr [JArr [JStr ''field'', JStr ''CREATED_AT'', JObj [(''temporal-unit'', JStr ''month'')]]]),
           (''filter'', JArr [JStr ''='', JArr [JStr ''field'', JStr ''CREATED_AT''], JStr ''active'']),
           (''order-by'', JArr [JArr [JStr ''desc'', JArr [JStr ''field'', JStr ''AMOUNT'']]]),
           (''joins'', JArr [JObj [(''alias'', JStr ''P''), (''source-table'', JStr ''table_777''),
                                  (''condition'', JArr [JStr ''='', JArr [JStr ''field'', JStr ''CREATED_AT''],
                                                        JArr [JStr ''field'', JStr ''field_999'']])]]),
           (''fields'', JArr [JArr [JStr ''field'', JStr ''CREATED_AT'']]),
           (''limit'', JNum 5),
           (''expressions'', JObj [(''double'', JArr [JStr ''*'', JArr [JStr ''field'', JStr ''AMOUNT''], JNum 2])])]"

definition ex_join :: jsval where
  "ex_join =
     JObj [(''alias'', JStr ''P''), (''source-table'', JNum 777),
           (''condition'', JArr [JStr ''='', JArr [JStr ''field'', JNum 10, JNull],
                                 JArr [JStr ''field'', JNum 999]])]"

definition ex_resolved_join :: jsval where
  "ex_resolved_join =
     JObj [(''alias'', JStr ''P''), (''source-table'', JStr ''table_777''),
           (''condition'', JArr [JStr ''='', JArr [JStr ''field'', JStr ''CREATED_AT''],
                                 JArr [JStr ''field'', JStr ''field_999'']])]"

definition native_dashcard :: "string \<Rightarrow> jsval" where
  "native_dashcard sql =
     JObj [(''id'', JNum 3), (''card_id'', JNum 13),
           (''card'', JObj [(''name'', JStr ''Revenue''),
              (''dataset_query'',
                 JObj [(''database'', JNum 1), (''type'', JStr ''native''),
                       (''native'', JObj [(''query'', JStr sql),
                          (''template-tags'',
                             JObj [(''since'', JObj [(''type'', JStr ''date'')]),
                                   (''region'', JObj [(''type'', JStr ''text'')])])])])])]"

definition ex_mapping :: "jsval list \<Rightarrow> jsval" where
  "ex_mapping target =
     JObj [(''parameter_id'', JStr ''p1''), (''card_id'', JNum 11), (''target'', JArr target)]"

definition ex_audit_dashboard :: jsval where
  "ex_audit_dashboard =
     JObj [(''id'', JNum 7),
           (''parameters'', JArr [JObj [(''id'', JStr ''p1'')], JObj [(''id'', JStr ''p2'')]]),
           (''dashcards'', JArr [
              JObj [(''id'', JNum 1), (''card_id'', JNum 11), (''card'', JObj [(''name'', JStr ''Orders'')]),
                    (''parameter_mappings'',
                       JArr [ex_mapping [JStr ''dimension'', JArr [JStr ''field'', JNum 10, JNull],
                                         JObj [(''stage-number'', JNum 0)]]])],
              JObj [(''id'', JNum 2), (''card_id'', JNum 12), (''card'', JObj [(''name'', JStr ''People'')]),
                    (''parameter_mappings'',
                       JArr [ex_mapping [JStr ''dimension'', JArr [JStr ''field'', JNum 10, JNull],
                                         JObj [(''stage-number'', JNum 0)]],
                             JObj [(''parameter_id'', JStr ''p2''),
                                   (''target'', JArr [JStr ''variable'',
                                                      JArr [JStr ''template-tag'', JStr ''since'']])]])]])]"

definition ex_audit_client :: metabaseClient where
  "ex_audit_client =
     \<lparr>getDashboard = (\<lambda>i. if i = 7 then Some ex_audit_dashboard else None),
      getTableQueryMetadata = (\<lambda>i. None)\<rparr>"

definition ex_card_1 :: card_audit where
  "ex_card_1 =
     \<lparr>dashcard_id = JNum 1, card_id = JNum 11, card_name = JStr ''Orders'', source_table = JNull,
      is_native_query = False, connected_params = [JStr ''p1''], missing_params = [JStr ''p2''],
      errors = []\<rparr>"

definition ex_card_2 :: card_audit where
  "ex_card_2 =
     \<lparr>dashcard_id = JNum 2, card_id = JNum 12, card_name = JStr ''People'', source_table = JNull,
      is_native_query = False, connected_params = [JStr ''p1'', JStr ''p2''], missing_params = [],
      errors = []\<rparr>"

definition ex_report :: audit_report where
  "ex_report =
     \<lparr>dashboard_id = 7, total_parameters = 2, parameter_ids = [JStr ''p1'', JStr ''p2''],
      total_cards = 2, cards_with_issues = 1, all_cards = [ex_card_1, ex_card_2],
      cards_needing_attention = [ex_card_1]\<rparr>"

definition mbql_dashcard :: "int \<Rightarrow> jsval \<Rightarrow> jsval" where
  "mbql_dashcard k query =
     JObj [(''id'', JNum k), (''card_id'', JNum (100 + k)),
           (''card'', JObj [(''name'', JStr ''Orders''),
              (''dataset_query'',
                 JObj [(''database'', JNum 1), (''type'', JStr ''query''), (''query'', query)])])]"








definition ex_dimension_mapping :: jsval where
  "ex_dimension_mapping = ex_mapping [JStr ''dimension'', JArr [JStr ''field'', JNum 10, JNull]]"

definition ex_staged_mapping :: jsval where
  "ex_staged_mapping =
     ex_mapping [JStr ''dimension'', JArr [JStr ''field'', JNum 10, JNull],
                 JObj [(''stage-number'', JNum 0)]]"

definition ex_untargeted_mapping :: jsval where
  "ex_untargeted_mapping = JObj [(''parameter_id'', JStr ''p1'')]"

definition ex_variable_mapping :: jsval where
  "ex_variable_mapping = ex_mapping [JStr ''variable'', JArr [JStr ''template-tag'', JStr ''since'']]"

definition ex_zero_mapping :: jsval where
  "ex_zero_mapping = JObj [(''parameter_id'', JStr ''p1''), (''target'', JNum 0)]"

definition audit_dashcard :: "int \<Rightarrow> jsval list \<Rightarrow> jsval" where
  "audit_dashcard k mappings =
     JObj [(''id'', JNum k), (''card_id'', JNum (10 + k)), (''card'', JObj [(''name'', JStr ''Orders'')]),
           (''parameter_mappings'', JArr mappings)]"

definition ex_stage_dashboard :: jsval where
  "ex_stage_dashboard =
     JObj [(''id'', JNum 8),
           (''parameters'', JArr [JObj [(''id'', JStr ''p1'')]]),
           (''dashcards'', JArr [
              audit_dashcard 1 [ex_dimension_mapping],
              audit_dashcard 2 [ex_staged_mapping],
              audit_dashcard 3 [ex_untargeted_mapping, ex_variable_mapping]])]"

definition ex_zero_dashboard :: jsval where
  "ex_zero_dashboard =
     JObj [(''id'', JNum 9),
           (''parameters'', JArr [JObj [(''id'', JStr ''p1'')]]),
           (''dashcards'', JArr [audit_dashcard 1 [ex_zero_mapping]])]"

definition ex_stage_client :: metabaseClient where
  "ex_stage_client =
     \<lparr>getDashboard = (\<lambda>i. if i = 8 then Some ex_stage_dashboard
                            else if i = 9 then Some ex_zero_dashboard else None),
      getTableQueryMetadata = (\<lambda>i. None)\<rparr>"

definition audited_card :: "int \<Rightarrow> jsval list \<Rightarrow> string list \<Rightarrow> card_audit" where
  "audited_card k connected errs =
     \<lparr>dashcard_id = JNum k, card_id = JNum (10 + k), card_name = JStr ''Orders'', source_table = JNull,
      is_native_query = False, connected_params = connected, missing_params = [], errors = errs\<rparr>"

definition ex_missing_stage :: string where
  "ex_missing_stage =
     ''Parameter '' @ [CHR 0x27] @ ''p1'' @ [CHR 0x27] @ '' missing stage-number (MBQL cards require this)''"

definition ex_no_target :: string where
  "ex_no_target = ''Parameter '' @ [CHR 0x27] @ ''p1'' @ [CHR 0x27] @ '' has no target''"

definition ex_stage_report :: audit_report where
  "ex_stage_report =
     \<lparr>dashboard_id = 8, total_parameters = 1, parameter_ids = [JStr ''p1''],
      total_cards = 3, cards_with_issues = 2,
      all_cards = [audited_card 1 [JStr ''p1''] [ex_missing_stage],
                   audited_card 2 [JStr ''p1''] [],
                   audited_card 3 [JStr ''p1'', JStr ''p1''] [ex_no_target]],
      cards_needing_attention = [audited_card 1 [JStr ''p1''] [ex_missing_stage],
                                 audited_card 3 [JStr ''p1'', JStr ''p1''] [ex_no_target]]\<rparr>"

definition ex_zero_report :: audit_report where
  "ex_zero_report =
     \<lparr>dashboard_id = 9, total_parameters = 1, parameter_ids = [JStr ''p1''],
      total_cards = 1, cards_with_issues = 1,
      all_cards = [audited_card 1 [JStr ''p1''] [ex_no_target]],
      cards_needing_attention = [audited_card 1 [JStr ''p1''] [ex_no_target]]\<rparr>"

definition ex_zero_source_dashboard :: jsval where
  "ex_zero_source_dashboard =
     JObj [(''id'', JNum 6), (''name'', JStr ''Sales''),
           (''dashcards'', JArr [mbql_dashcard 1 (JObj [(''source-table'', JNum 0), (''limit'', JNum 5)])])]"

definition ex_zero_source_client :: metabaseClient where
  "ex_zero_source_client =
     \<lparr>getDashboard = (\<lambda>i. if i = 6 then Some ex_zero_source_dashboard else None),
      getTableQueryMetadata = (\<lambda>t. None)\<rparr>"

definition ex_zero_source_output :: jsval where
  "ex_zero_source_output =
     JObj [(''dashboard_id'', JNum 6), (''dashboard_name'', JStr ''Sales''),
           (''total_cards'', JNum 1),
           (''cards'', JArr [
              JObj [(''dashcard_id'', JNum 1), (''card_id'', JNum 101), (''card_name'', JStr ''Orders''),
                    (''tab'', JNull), (''query_type'', JStr ''mbql''), (''database_id'', JNum 1),
                    (''mbql'', JObj [(''limit'', JNum 5)])]]),
           (''tables_used'', JArr [])]"

section \<open>Properties\<close>

subsection \<open>Reading a sequence\<close>

lemma idx_simps [simp]:
  "idx (x # xs) 0 = x"
  "idx (x # xs) (Suc i) = idx xs i"
  "idx [] i = JUndefined"
  by (simp_all add: idx_def)

lemma idx_numeral [simp]: "idx (x # xs) (numeral k) = idx xs (pred_numeral k)"
  by (simp add: idx_def numeral_eq_Suc)

lemma num_to_string_10: "num_to_string 10 = ''10''"
  by code_simp

lemma num_to_string_20: "num_to_string 20 = ''20''"
  by code_simp

lemma num_to_string_999: "num_to_string 999 = ''999''"
  by code_simp

lemma num_to_string_777: "num_to_string 777 = ''777''"
  by code_simp

subsection \<open>The node resolver\<close>

lemma field_name_found:
  "map_of fieldLookup (num_to_string n) = Some info \<Longrightarrow> name info = JStr s \<Longrightarrow> s \<noteq> [] \<Longrightarrow>
   field_name fieldLookup n = JStr s"
  by (simp add: field_name_def or_else_def)

lemma field_name_absent:
  "map_of fieldLookup (num_to_string n) = None \<Longrightarrow>
   field_name fieldLookup n = JStr (''field_'' @ num_to_string n)"
  by (simp add: field_name_def or_else_def)

lemma field_name_is_string:
  assumes "names_are_strings fieldLookup"
  shows "\<exists>s. field_name fieldLookup n = JStr s"
proof (cases "map_of fieldLookup (num_to_string n)")
  case None
  then show ?thesis by (simp add: field_name_def or_else_def)
next
  case (Some info)
  then have "(num_to_string n, info) \<in> set fieldLookup" by (rule map_of_SomeD)
  with assms have "case name info of JStr s \<Rightarrow> True | _ \<Rightarrow> False"
    unfolding names_are_strings_def list_all_iff by fastforce
  then obtain s where "name info = JStr s"
    by (cases "name info") simp_all
  with Some show ?thesis by (simp add: field_name_def or_else_def)
qed

lemma resolveFieldRef_eq_str: "resolveFieldRef fieldLookup v = JStr s \<longleftrightarrow> v = JStr s"
  by (cases v) (simp_all split: option.splits)

lemma field_ref_id_map:
  "field_ref_id (map (resolveFieldRef fieldLookup) ref) = field_ref_id ref"
proof (cases "1 < length ref")
  case True
  then have i: "idx (map (resolveFieldRef fieldLookup) ref) 1 = resolveFieldRef fieldLookup (idx ref 1)"
    "idx (map (resolveFieldRef fieldLookup) ref) 0 = resolveFieldRef fieldLookup (idx ref 0)"
    by (simp_all add: idx_def)
  show ?thesis
    unfolding field_ref_id_def i
    by (cases "idx ref 1") (simp_all add: resolveFieldRef_eq_str split: option.splits)
next
  case False
  then show ?thesis by (simp add: field_ref_id_def idx_def)
qed

lemma field_ref_id_Some:
  "field_ref_id ref = Some n \<longleftrightarrow> idx ref 0 = JStr ''field'' \<and> idx ref 1 = JNum n"
  by (cases "idx ref 1") (simp_all add: field_ref_id_def)

lemma field_ref_id_None:
  "field_ref_id ref = None \<longleftrightarrow> \<not> (idx ref 0 = JStr ''field'' \<and> is_number (idx ref 1))"
  by (cases "idx ref 1") (simp_all add: field_ref_id_def is_number_def)

text \<open>
  C1. Resolving a field reference keeps its arity. With the id \<open>n\<close> bound to the non-empty
  name \<open>s\<close> in the field lookup: \<^verbatim>\<open>["field", n, opts]\<close> with \<open>opts\<close> a non-null object
  resolves to the three elements \<^verbatim>\<open>["field", s, opts]\<close>, \<open>opts\<close> unchanged, and both
  \<^verbatim>\<open>["field", n, null]\<close> and the two-element \<^verbatim>\<open>["field", n]\<close> resolve to the two elements
  \<^verbatim>\<open>["field", s]\<close>. The name is taken by \<^verbatim>\<open>fieldInfo?.name || ...\<close>, which is why it has to
  be non-empty to be the one that comes out.
\<close>

theorem field_arity_preserved:
  assumes "map_of fieldLookup (num_to_string n) = Some info"
    and "name info = JStr s" and "s \<noteq> []"
    and "typeof_object opts" and "opts \<noteq> JNull"
  shows "resolveFieldRef fieldLookup (JArr [JStr ''field'', JNum n, opts])
           = JArr [JStr ''field'', JStr s, opts]
       \<and> resolveFieldRef fieldLookup (JArr [JStr ''field'', JNum n, JNull])
           = JArr [JStr ''field'', JStr s]
       \<and> resolveFieldRef fieldLookup (JArr [JStr ''field'', JNum n])
           = JArr [JStr ''field'', JStr s]"
proof -
  have nm: "field_name fieldLookup n = JStr s"
    using assms(1-3) by (rule field_name_found)
  have t: "truthy opts"
    using assms(4,5) by (cases opts) (simp_all add: typeof_object_def)
  show ?thesis
    using nm t assms(4) by (simp add: field_ref_id_def typeof_object_def)
qed

theorem field_arity_preserved_witness:
  "map_of ex_fieldLookup (num_to_string 10) = Some \<lparr>name = JStr ''CREATED_AT'', table = JStr ''PUBLIC.ORDERS''\<rparr>
   \<and> typeof_object (JObj [(''temporal-unit'', JStr ''month'')])
   \<and> resolveFieldRef ex_fieldLookup
       (JArr [JStr ''field'', JNum 10, JObj [(''temporal-unit'', JStr ''month'')]])
     = JArr [JStr ''field'', JStr ''CREATED_AT'', JObj [(''temporal-unit'', JStr ''month'')]]
   \<and> resolveFieldRef ex_fieldLookup (JArr [JStr ''field'', JNum 10, JNull])
     = JArr [JStr ''field'', JStr ''CREATED_AT'']
   \<and> resolveFieldRef ex_fieldLookup (JArr [JStr ''field'', JNum 10])
     = JArr [JStr ''field'', JStr ''CREATED_AT'']"
  using field_arity_preserved [of ex_fieldLookup 10
      "\<lparr>name = JStr ''CREATED_AT'', table = JStr ''PUBLIC.ORDERS''\<rparr>" "''CREATED_AT''"
      "JObj [(''temporal-unit'', JStr ''month'')]"]
  by (simp add: ex_fieldLookup_def num_to_string_10 typeof_object_def)

lemma non_null_object: "truthy v \<and> typeof_object v \<longleftrightarrow> typeof_object v \<and> v \<noteq> JNull"
  by (cases v) (simp_all add: typeof_object_def)

text \<open>
  C2, as the code has it. A sequence is a field reference when its first element is
  \<^verbatim>\<open>"field"\<close> and its second element is a number, whatever its length: it then resolves to
  \<^verbatim>\<open>"field"\<close>, the looked-up name and, when the element at index 2 is a non-null object, that
  element; nothing else of the sequence is kept. Every other sequence is resolved element by
  element and keeps its length.
\<close>

theorem sequence_resolution:
  "(idx ref 0 = JStr ''field'' \<and> idx ref 1 = JNum n \<longrightarrow>
      resolveFieldRef fieldLookup (JArr ref)
        = (if typeof_object (idx ref 2) \<and> idx ref 2 \<noteq> JNull
           then JArr [JStr ''field'', field_name fieldLookup n, idx ref 2]
           else JArr [JStr ''field'', field_name fieldLookup n]))
   \<and> (\<not> (idx ref 0 = JStr ''field'' \<and> is_number (idx ref 1)) \<longrightarrow>
      (\<exists>ys. resolveFieldRef fieldLookup (JArr ref) = JArr ys \<and> length ys = length ref
         \<and> ys = map (resolveFieldRef fieldLookup) ref))"
proof -
  have a: "resolveFieldRef fieldLookup (JArr ref)
        = (if typeof_object (idx ref 2) \<and> idx ref 2 \<noteq> JNull
           then JArr [JStr ''field'', field_name fieldLookup n, idx ref 2]
           else JArr [JStr ''field'', field_name fieldLookup n])"
    if "idx ref 0 = JStr ''field'' \<and> idx ref 1 = JNum n"
  proof -
    from that have "field_ref_id ref = Some n" using field_ref_id_Some by blast
    then show ?thesis by (simp add: non_null_object)
  qed
  have b: "\<exists>ys. resolveFieldRef fieldLookup (JArr ref) = JArr ys \<and> length ys = length ref
         \<and> ys = map (resolveFieldRef fieldLookup) ref"
    if "\<not> (idx ref 0 = JStr ''field'' \<and> is_number (idx ref 1))"
  proof -
    from that have "field_ref_id ref = None" using field_ref_id_None by blast
    then show ?thesis by simp
  qed
  from a b show ?thesis by blast
qed

theorem sequence_resolution_witness:
  "resolveFieldRef ex_fieldLookup (JArr [JStr ''field'', JNum 10, JNull, JNum 7])
     = JArr [JStr ''field'', JStr ''CREATED_AT'']
   \<and> resolveFieldRef ex_fieldLookup
       (JArr [JStr ''field'', JNum 10, JObj [(''temporal-unit'', JStr ''month'')], JNum 7])
     = JArr [JStr ''field'', JStr ''CREATED_AT'', JObj [(''temporal-unit'', JStr ''month'')]]
   \<and> resolveFieldRef ex_fieldLookup (JArr [JStr ''field'', JStr ''x'', JArr [JStr ''field'', JNum 10]])
     = JArr [JStr ''field'', JStr ''x'', JArr [JStr ''field'', JStr ''CREATED_AT'']]"
proof -
  have n: "field_name ex_fieldLookup 10 = JStr ''CREATED_AT''"
    by (simp add: field_name_def ex_fieldLookup_def num_to_string_10 or_else_def)
  have a: "resolveFieldRef ex_fieldLookup (JArr [JStr ''field'', JNum 10, JNull, JNum 7])
     = JArr [JStr ''field'', JStr ''CREATED_AT'']"
    using sequence_resolution [of "[JStr ''field'', JNum 10, JNull, JNum 7]" 10 ex_fieldLookup] n
    by simp
  have b: "resolveFieldRef ex_fieldLookup
       (JArr [JStr ''field'', JNum 10, JObj [(''temporal-unit'', JStr ''month'')], JNum 7])
     = JArr [JStr ''field'', JStr ''CREATED_AT'', JObj [(''temporal-unit'', JStr ''month'')]]"
    using sequence_resolution [of "[JStr ''field'', JNum 10, JObj [(''temporal-unit'', JStr ''month'')], JNum 7]"
        10 ex_fieldLookup] n
    by (simp add: typeof_object_def)
  have "resolveFieldRef ex_fieldLookup (JArr [JStr ''field'', JStr ''x'', JArr [JStr ''field'', JNum 10]])
     = JArr (map (resolveFieldRef ex_fieldLookup) [JStr ''field'', JStr ''x'', JArr [JStr ''field'', JNum 10]])"
    using sequence_resolution [of "[JStr ''field'', JStr ''x'', JArr [JStr ''field'', JNum 10]]" 0 ex_fieldLookup]
    by (simp add: is_number_def)
  then have c: "resolveFieldRef ex_fieldLookup (JArr [JStr ''field'', JStr ''x'', JArr [JStr ''field'', JNum 10]])
     = JArr [JStr ''field'', JStr ''x'', JArr [JStr ''field'', JStr ''CREATED_AT'']]"
    using sequence_resolution [of "[JStr ''field'', JNum 10]" 10 ex_fieldLookup] n
    by (simp add: typeof_object_def)
  from a b c show ?thesis by blast
qed

text \<open>
  C2 as stated fails: a sequence of four elements with head \<^verbatim>\<open>"field"\<close> and a numeric second
  element is not resolved element by element and does not keep its length.
\<close>

theorem four_element_field_counterexample:
  "resolveFieldRef ex_fieldLookup (JArr [JStr ''field'', JNum 10, JNull, JNum 7])
     = JArr [JStr ''field'', JStr ''CREATED_AT'']
   \<and> resolveFieldRef ex_fieldLookup (JArr [JStr ''field'', JNum 10, JNull, JNum 7])
     \<noteq> JArr (map (resolveFieldRef ex_fieldLookup) [JStr ''field'', JNum 10, JNull, JNum 7])"
  by (simp add: field_ref_id_def field_name_def or_else_def ex_fieldLookup_def num_to_string_10)

text \<open>
  C10. The node resolver is idempotent on every query tree (no field reference with a
  sequence in its options slot), for every field lookup whose names are strings.
\<close>

theorem resolveFieldRef_idempotent:
  assumes "names_are_strings fieldLookup" and "options_not_sequence t"
  shows "resolveFieldRef fieldLookup (resolveFieldRef fieldLookup t) = resolveFieldRef fieldLookup t"
  using assms
proof (induction fieldLookup t rule: resolveFieldRef.induct)
  case (1 fieldLookup ref)
  show ?case
  proof (cases "field_ref_id ref")
    case None
    with "1.prems" have "list_all options_not_sequence ref" by simp
    with "1.IH" None "1.prems"(1) have "map (resolveFieldRef fieldLookup) (map (resolveFieldRef fieldLookup) ref)
        = map (resolveFieldRef fieldLookup) ref"
      by (simp add: list_all_iff)
    with None show ?thesis by (simp add: field_ref_id_map)
  next
    case (Some n)
    obtain s where s: "field_name fieldLookup n = JStr s"
      using field_name_is_string [OF "1.prems"(1)] by blast
    from Some "1.prems" have o: "case idx ref 2 of JArr opts \<Rightarrow> False | _ \<Rightarrow> True"
      by simp
    have r: "resolveFieldRef fieldLookup (idx ref 2) = idx ref 2"
      using o by (cases "idx ref 2") simp_all
    show ?thesis
      using Some s r by (simp add: field_ref_id_def)
  qed
qed simp_all

theorem resolveFieldRef_idempotent_witness:
  "names_are_strings ex_fieldLookup \<and> options_not_sequence ex_filter
   \<and> resolveFieldRef ex_fieldLookup ex_filter
       = JArr [JStr ''and'',
           JArr [JStr ''='', JArr [JStr ''field'', JStr ''CREATED_AT''], JStr ''active''],
           JArr [JStr ''>'', JArr [JStr ''field'', JStr ''AMOUNT'', JObj [(''binning'', JNull)]], JNum 100]]
   \<and> resolveFieldRef ex_fieldLookup (resolveFieldRef ex_fieldLookup ex_filter)
       = resolveFieldRef ex_fieldLookup ex_filter"
proof -
  have n: "names_are_strings ex_fieldLookup"
    by (simp add: names_are_strings_def ex_fieldLookup_def)
  have o: "options_not_sequence ex_filter"
    by (simp add: ex_filter_def field_ref_id_def)
  have v: "resolveFieldRef ex_fieldLookup ex_filter
       = JArr [JStr ''and'',
           JArr [JStr ''='', JArr [JStr ''field'', JStr ''CREATED_AT''], JStr ''active''],
           JArr [JStr ''>'', JArr [JStr ''field'', JStr ''AMOUNT'', JObj [(''binning'', JNull)]], JNum 100]]"
    by (simp add: ex_filter_def ex_fieldLookup_def field_ref_id_def field_name_def or_else_def
        typeof_object_def num_to_string_10 num_to_string_20)
  show ?thesis
    using n o v resolveFieldRef_idempotent [OF n o] by simp
qed

subsection \<open>The query resolver\<close>

lemma assign_fresh: "k \<notin> fst ` set kvs \<Longrightarrow> assign k v kvs = kvs @ [(k, v)]"
  unfolding assign_def by (induction kvs) auto

lemma fold_set_member:
  "distinct (map fst es) \<Longrightarrow> fst ` set es \<inter> fst ` set obj = {} \<Longrightarrow>
   fold (\<lambda>kv obj. set_member (fst kv) (f (snd kv)) obj) es obj
     = obj @ map (\<lambda>kv. (fst kv, f (snd kv))) (filter (\<lambda>kv. fst kv \<noteq> ''__proto__'') es)"
proof (induction es arbitrary: obj)
  case Nil
  then show ?case by simp
next
  case (Cons e es)
  show ?case
  proof (cases "fst e = ''__proto__''")
    case True
    with Cons.IH [of obj] Cons.prems show ?thesis
      by (simp add: set_member_def)
  next
    case False
    from Cons.prems have fresh: "fst e \<notin> fst ` set obj" by auto
    have "fst ` set es \<inter> fst ` set (obj @ [(fst e, f (snd e))]) = {}"
      using Cons.prems by auto
    with Cons.IH [of "obj @ [(fst e, f (snd e))]"] Cons.prems(1) False fresh show ?thesis
      by (simp add: set_member_def assign_fresh)
  qed
qed

lemma assigned_expressions_distinct:
  "distinct (map fst es) \<Longrightarrow>
   assigned_expressions fieldLookup es
     = map (\<lambda>kv. (fst kv, resolveFieldRef fieldLookup (snd kv)))
         (filter (\<lambda>kv. fst kv \<noteq> ''__proto__'') es)"
  using fold_set_member [of es "[]" "resolveFieldRef fieldLookup"]
  by (simp add: assigned_expressions_def)

lemma resolveMbql_Some:
  assumes "resolveMbql tableNames fieldLookup query = Some resolved" and "truthy query"
  obtains aggregation breakout order_by joins fields where
    "mapped_member fieldLookup query ''aggregation'' = Some aggregation"
    "mapped_member fieldLookup query ''breakout'' = Some breakout"
    "mapped_member fieldLookup query ''order-by'' = Some order_by"
    "resolved_joins tableNames fieldLookup query = Some joins"
    "mapped_member fieldLookup query ''fields'' = Some fields"
    "resolved = JObj (resolved_source_table tableNames query @ aggregation @ breakout
                    @ resolved_filter fieldLookup query @ order_by @ joins @ fields
                    @ copied_limit query @ resolved_expressions fieldLookup query)"
  using assms unfolding resolveMbql_def
  by (auto split: bind_splits)

lemma mapped_member_keys:
  "mapped_member fieldLookup query k = Some ms \<Longrightarrow>
   ms = [] \<and> \<not> truthy (member_of query k)
   \<or> (\<exists>xs. member_of query k = JArr xs \<and> ms = [(k, JArr (map (resolveFieldRef fieldLookup) xs))])"
  by (auto simp: mapped_member_def map_array_def split: if_splits jsval.splits)


lemma keyed_concat:
  "list_all2 keyed ks ps \<Longrightarrow> distinct ks \<Longrightarrow>
   distinct (map fst (concat ps)) \<and> fst ` set (concat ps) \<subseteq> set ks"
proof (induction ks ps rule: list_all2_induct)
  case Nil
  then show ?case by simp
next
  case (Cons k ks p ps)
  then have d: "distinct (map fst (concat ps))" and sub: "fst ` set (concat ps) \<subseteq> set ks"
    and k: "k \<notin> set ks" by simp_all
  from sub k have "k \<notin> fst ` set (concat ps)" by blast
  with d sub Cons.hyps(1) show ?case
    unfolding keyed_def by (elim disjE exE) (simp_all, blast+)
qed

lemma keyed_map_of:
  "list_all2 keyed ks ps \<Longrightarrow> distinct ks \<Longrightarrow> i < length ks \<Longrightarrow>
   map_of (concat ps) (ks ! i) = map_of (ps ! i) (ks ! i)"
proof (induction ks ps arbitrary: i rule: list_all2_induct)
  case Nil
  then show ?case by simp
next
  case (Cons k ks p ps)
  show ?case
  proof (cases i)
    case 0
    have "fst ` set (concat ps) \<subseteq> set ks"
      using keyed_concat Cons.hyps(2) Cons.prems(1) by auto
    with Cons.prems(1) have "map_of (concat ps) k = None"
      by (auto simp: map_of_eq_None_iff)
    with 0 Cons.hyps(1) show ?thesis
      by (auto simp: keyed_def map_add_def)
  next
    case (Suc j)
    with Cons.prems have "ks ! j \<noteq> k" by auto
    with Cons.hyps(1) have "map_of p (ks ! j) = None" by (auto simp: keyed_def)
    with Suc Cons show ?thesis by (auto simp: map_add_def)
  qed
qed

lemma resolved_source_table_cases:
  "resolved_source_table tableNames query = [] \<and> \<not> (\<exists>n. member_of query ''source-table'' = JNum n \<and> n \<noteq> 0)
   \<or> (\<exists>n. member_of query ''source-table'' = JNum n \<and> n \<noteq> 0
         \<and> resolved_source_table tableNames query = [(''source-table'', table_name tableNames n)])"
  by (auto simp: resolved_source_table_def split: jsval.splits)

lemma resolved_joins_cases:
  "resolved_joins tableNames fieldLookup query = Some ms \<Longrightarrow>
   ms = [] \<and> \<not> truthy (member_of query ''joins'')
   \<or> (\<exists>js rs. member_of query ''joins'' = JArr js
         \<and> those (map (resolve_join tableNames fieldLookup) js) = Some rs
         \<and> ms = [(''joins'', JArr rs)])"
  by (auto simp: resolved_joins_def as_array_def split: if_splits jsval.splits bind_splits)


lemma mapped_member_keyed: "mapped_member fieldLookup query k = Some ms \<Longrightarrow> keyed k ms"
  using mapped_member_keys [of fieldLookup query k ms] by (auto simp: keyed_def)

lemma resolved_joins_keyed: "resolved_joins tableNames fieldLookup query = Some ms \<Longrightarrow> keyed ''joins'' ms"
  using resolved_joins_cases [of tableNames fieldLookup query ms] by (auto simp: keyed_def)

lemma resolved_source_table_keyed: "keyed ''source-table'' (resolved_source_table tableNames query)"
  using resolved_source_table_cases [of tableNames query] by (auto simp: keyed_def)

lemma resolved_filter_keyed: "keyed ''filter'' (resolved_filter fieldLookup query)"
  by (simp add: keyed_def resolved_filter_def)

lemma copied_limit_keyed: "keyed ''limit'' (copied_limit query)"
  by (simp add: keyed_def copied_limit_def)

lemma resolved_expressions_keyed: "keyed ''expressions'' (resolved_expressions fieldLookup query)"
  by (simp add: keyed_def resolved_expressions_def)

lemma distinct_member_names: "distinct member_names"
  by (simp add: member_names_def)

lemma truthy_member_present: "truthy (member_of (JObj kvs) k) \<Longrightarrow> k \<in> fst ` set kvs"
  by (auto split: option.splits dest!: map_of_SomeD intro: rev_image_eqI)

lemma mapped_member_truthy:
  "mapped_member fieldLookup query k = Some ms \<Longrightarrow> \<forall>x \<in> set ms. truthy (member_of query (fst x))"
  using mapped_member_keys [of fieldLookup query k ms] by auto

lemma resolved_joins_truthy:
  "resolved_joins tableNames fieldLookup query = Some ms \<Longrightarrow>
   \<forall>x \<in> set ms. truthy (member_of query (fst x))"
  using resolved_joins_cases [of tableNames fieldLookup query ms] by auto

lemma resolved_source_table_truthy:
  "\<forall>x \<in> set (resolved_source_table tableNames query). truthy (member_of query (fst x))"
  using resolved_source_table_cases [of tableNames query] by auto

lemma resolved_filter_truthy:
  "\<forall>x \<in> set (resolved_filter fieldLookup query). truthy (member_of query (fst x))"
  by (simp add: resolved_filter_def)

lemma copied_limit_truthy:
  "\<forall>x \<in> set (copied_limit query). truthy (member_of query (fst x))"
  by (simp add: copied_limit_def)

lemma resolved_expressions_truthy:
  "\<forall>x \<in> set (resolved_expressions fieldLookup query). truthy (member_of query (fst x))"
  by (simp add: resolved_expressions_def)

text \<open>
  C9, as the code has it. For a query object, the resolved object has no member that the
  input lacks, and only the nine members of \<open>member_names\<close>, each at most once; a member is
  carried only when it is truthy on the input. A \<^verbatim>\<open>source-table\<close> that is a non-zero number is
  resolved through the table names; a truthy \<^verbatim>\<open>aggregation\<close>, \<^verbatim>\<open>breakout\<close>,
  \<^verbatim>\<open>order-by\<close> or \<^verbatim>\<open>fields\<close> is mapped element by element through the node resolver; a
  truthy \<^verbatim>\<open>filter\<close> is resolved whole; truthy \<^verbatim>\<open>joins\<close> are resolved join by join; a truthy
  (non-zero) \<^verbatim>\<open>limit\<close> is copied as it is; truthy \<^verbatim>\<open>expressions\<close> are assigned one by one,
  resolved, to a fresh object, which for an object of expressions keeps every expression
  under its key and in order, except one named \<^verbatim>\<open>__proto__\<close>.
\<close>

theorem resolved_query_members:
  assumes "resolveMbql tableNames fieldLookup query = Some resolved" and "query = JObj kvs"
  shows "\<exists>rs. resolved = JObj rs \<and> distinct (map fst rs)
     \<and> fst ` set rs \<subseteq> fst ` set kvs
     \<and> fst ` set rs \<subseteq> set member_names
     \<and> (\<forall>k \<in> fst ` set rs. truthy (member_of query k))
     \<and> (\<forall>n. member_of query ''source-table'' = JNum n \<and> n \<noteq> 0 \<longrightarrow>
           map_of rs ''source-table'' = Some (table_name tableNames n))
     \<and> (\<forall>k \<in> {''aggregation'', ''breakout'', ''order-by'', ''fields''}.
           truthy (member_of query k) \<longrightarrow>
           (\<exists>xs. member_of query k = JArr xs
              \<and> map_of rs k = Some (JArr (map (resolveFieldRef fieldLookup) xs))))
     \<and> (truthy (member_of query ''filter'') \<longrightarrow>
           map_of rs ''filter'' = Some (resolveFieldRef fieldLookup (member_of query ''filter'')))
     \<and> (truthy (member_of query ''joins'') \<longrightarrow>
           (\<exists>js rjs. member_of query ''joins'' = JArr js
              \<and> those (map (resolve_join tableNames fieldLookup) js) = Some rjs
              \<and> map_of rs ''joins'' = Some (JArr rjs)))
     \<and> (truthy (member_of query ''limit'') \<longrightarrow>
           map_of rs ''limit'' = Some (member_of query ''limit''))
     \<and> (truthy (member_of query ''expressions'') \<longrightarrow>
           map_of rs ''expressions''
             = Some (JObj (assigned_expressions fieldLookup
                            (own_entries (member_of query ''expressions'')))))
     \<and> (\<forall>es. member_of query ''expressions'' = JObj es \<and> distinct (map fst es) \<longrightarrow>
           map_of rs ''expressions''
             = Some (JObj (map (\<lambda>kv. (fst kv, resolveFieldRef fieldLookup (snd kv)))
                            (filter (\<lambda>kv. fst kv \<noteq> ''__proto__'') es))))"
proof -
  have t: "truthy query" using assms(2) by simp
  from resolveMbql_Some [OF assms(1) t]
  obtain aggregation breakout order_by joins fields where
    agg: "mapped_member fieldLookup query ''aggregation'' = Some aggregation" and
    brk: "mapped_member fieldLookup query ''breakout'' = Some breakout" and
    ord: "mapped_member fieldLookup query ''order-by'' = Some order_by" and
    jns: "resolved_joins tableNames fieldLookup query = Some joins" and
    fld: "mapped_member fieldLookup query ''fields'' = Some fields" and
    res: "resolved = JObj (resolved_source_table tableNames query @ aggregation @ breakout
                    @ resolved_filter fieldLookup query @ order_by @ joins @ fields
                    @ copied_limit query @ resolved_expressions fieldLookup query)"
    by blast
  define ps where "ps = [resolved_source_table tableNames query, aggregation, breakout,
      resolved_filter fieldLookup query, order_by, joins, fields, copied_limit query,
      resolved_expressions fieldLookup query]"
  define rs where "rs = concat ps"
  have r: "resolved = JObj rs" by (simp add: res rs_def ps_def)
  have k: "list_all2 keyed member_names ps"
    unfolding member_names_def ps_def
    by (simp add: resolved_source_table_keyed mapped_member_keyed [OF agg]
        mapped_member_keyed [OF brk] mapped_member_keyed [OF ord] mapped_member_keyed [OF fld]
        resolved_joins_keyed [OF jns] resolved_filter_keyed copied_limit_keyed
        resolved_expressions_keyed)
  have d: "distinct (map fst rs)" and sub: "fst ` set rs \<subseteq> set member_names"
    using keyed_concat [OF k distinct_member_names] by (simp_all add: rs_def)
  have look: "map_of rs (member_names ! i) = map_of (ps ! i) (member_names ! i)" if "i < 9" for i
    unfolding rs_def using keyed_map_of [OF k distinct_member_names] that
    by (simp add: member_names_def)
  have tr: "\<forall>k \<in> fst ` set rs. truthy (member_of query k)"
  proof -
    have "\<forall>p \<in> set ps. \<forall>x \<in> fst ` set p. truthy (member_of query x)"
      unfolding ps_def
      by (simp add: resolved_source_table_truthy
          mapped_member_truthy [OF agg] mapped_member_truthy [OF brk]
          mapped_member_truthy [OF ord] mapped_member_truthy [OF fld]
          resolved_joins_truthy [OF jns] resolved_filter_truthy copied_limit_truthy
          resolved_expressions_truthy)
    then show ?thesis by (auto simp: rs_def)
  qed
  have pres: "fst ` set rs \<subseteq> fst ` set kvs"
    using tr truthy_member_present assms(2) by blast
  have src: "\<forall>n. member_of query ''source-table'' = JNum n \<and> n \<noteq> 0 \<longrightarrow>
           map_of rs ''source-table'' = Some (table_name tableNames n)"
    using look [of 0] resolved_source_table_cases [of tableNames query]
    by (auto simp: member_names_def ps_def)
  have m1: "truthy (member_of query ''aggregation'') \<longrightarrow>
           (\<exists>xs. member_of query ''aggregation'' = JArr xs
              \<and> map_of rs ''aggregation'' = Some (JArr (map (resolveFieldRef fieldLookup) xs)))"
    using look [of 1] mapped_member_keys [OF agg] by (auto simp: member_names_def ps_def)
  have m2: "truthy (member_of query ''breakout'') \<longrightarrow>
           (\<exists>xs. member_of query ''breakout'' = JArr xs
              \<and> map_of rs ''breakout'' = Some (JArr (map (resolveFieldRef fieldLookup) xs)))"
    using look [of 2] mapped_member_keys [OF brk] by (auto simp: member_names_def ps_def)
  have m3: "truthy (member_of query ''order-by'') \<longrightarrow>
           (\<exists>xs. member_of query ''order-by'' = JArr xs
              \<and> map_of rs ''order-by'' = Some (JArr (map (resolveFieldRef fieldLookup) xs)))"
    using look [of 4] mapped_member_keys [OF ord] by (auto simp: member_names_def ps_def)
  have m4: "truthy (member_of query ''fields'') \<longrightarrow>
           (\<exists>xs. member_of query ''fields'' = JArr xs
              \<and> map_of rs ''fields'' = Some (JArr (map (resolveFieldRef fieldLookup) xs)))"
    using look [of 6] mapped_member_keys [OF fld] by (auto simp: member_names_def ps_def)
  have flt: "truthy (member_of query ''filter'') \<longrightarrow>
           map_of rs ''filter'' = Some (resolveFieldRef fieldLookup (member_of query ''filter''))"
    using look [of 3] by (auto simp: member_names_def ps_def resolved_filter_def)
  have jn: "truthy (member_of query ''joins'') \<longrightarrow>
           (\<exists>js rjs. member_of query ''joins'' = JArr js
              \<and> those (map (resolve_join tableNames fieldLookup) js) = Some rjs
              \<and> map_of rs ''joins'' = Some (JArr rjs))"
    using look [of 5] resolved_joins_cases [OF jns] by (auto simp: member_names_def ps_def)
  have lim: "truthy (member_of query ''limit'') \<longrightarrow>
           map_of rs ''limit'' = Some (member_of query ''limit'')"
    using look [of 7] by (auto simp: member_names_def ps_def copied_limit_def)
  have ex: "truthy (member_of query ''expressions'') \<longrightarrow>
           map_of rs ''expressions''
             = Some (JObj (assigned_expressions fieldLookup
                            (own_entries (member_of query ''expressions''))))"
    using look [of 8] by (auto simp: member_names_def ps_def resolved_expressions_def)
  have ex': "\<forall>es. member_of query ''expressions'' = JObj es \<and> distinct (map fst es) \<longrightarrow>
           map_of rs ''expressions''
             = Some (JObj (map (\<lambda>kv. (fst kv, resolveFieldRef fieldLookup (snd kv)))
                            (filter (\<lambda>kv. fst kv \<noteq> ''__proto__'') es)))"
    using ex by (auto simp: own_entries_def assigned_expressions_distinct)
  from m1 m2 m3 m4 have ms: "\<forall>k \<in> {''aggregation'', ''breakout'', ''order-by'', ''fields''}.
           truthy (member_of query k) \<longrightarrow>
           (\<exists>xs. member_of query k = JArr xs
              \<and> map_of rs k = Some (JArr (map (resolveFieldRef fieldLookup) xs)))"
    by blast
  from r d pres sub tr src ms flt jn lim ex ex' show ?thesis by blast
qed


lemma ex_query_resolved: "resolveMbql ex_tableNames ex_fieldLookup ex_query = Some ex_resolved"
  by code_simp

theorem resolved_query_members_witness:
  "resolveMbql ex_tableNames ex_fieldLookup ex_query = Some ex_resolved
   \<and> member_of ex_query ''limit'' = JNum 5
   \<and> member_of ex_resolved ''limit'' = JNum 5
   \<and> member_of ex_resolved ''page'' = JUndefined
   \<and> (\<exists>rs. ex_resolved = JObj rs \<and> fst ` set rs \<subseteq> set member_names)"
proof -
  have q: "ex_query = JObj (own_entries ex_query)"
    by (simp add: ex_query_def own_entries_def)
  have "\<exists>rs. ex_resolved = JObj rs \<and> fst ` set rs \<subseteq> set member_names"
    using resolved_query_members [OF ex_query_resolved q] by blast
  moreover have "member_of ex_query ''limit'' = JNum 5"
    by (simp add: ex_query_def)
  moreover have "member_of ex_resolved ''limit'' = JNum 5" "member_of ex_resolved ''page'' = JUndefined"
    by (simp_all add: ex_resolved_def)
  ultimately show ?thesis
    using ex_query_resolved by blast
qed

lemma proto_expression_not_assigned:
  "resolved_expressions ex_fieldLookup
     (JObj [(''expressions'', JObj [(''__proto__'', JArr [JStr ''field'', JNum 10, JNull]),
                                    (''net'', JArr [JStr ''field'', JNum 10, JNull])])])
     = [(''expressions'', JObj [(''net'', JArr [JStr ''field'', JStr ''CREATED_AT''])])]"
  by code_simp

text \<open>
  C9 as stated fails: a \<^verbatim>\<open>limit\<close> of 0 is present on the input and is not copied.
\<close>

theorem limit_zero_counterexample:
  "member_of (JObj [(''source-table'', JNum 2), (''limit'', JNum 0)]) ''limit'' = JNum 0
   \<and> resolveMbql ex_tableNames ex_fieldLookup (JObj [(''source-table'', JNum 2), (''limit'', JNum 0)])
       = Some (JObj [(''source-table'', JStr ''PUBLIC.ORDERS'')])"
  by (simp add: resolveMbql_def mapped_member_def resolved_joins_def resolved_source_table_def
      resolved_filter_def copied_limit_def resolved_expressions_def table_name_def lookup_def
      or_else_def ex_tableNames_def)

lemma table_name_absent:
  "map_of tableNames t = None \<Longrightarrow> table_name tableNames t = JStr (''table_'' @ num_to_string t)"
  by (simp add: table_name_def lookup_def or_else_def)

lemma map_of_assign:
  "map_of (assign k v kvs) k' = (if k' = k then Some v else map_of kvs k')"
  by (simp add: assign_def update_conv')

lemma resolveMbql_source_table:
  assumes "resolveMbql tableNames fieldLookup query = Some resolved"
    and "member_of query ''source-table'' = JNum t" and "t \<noteq> 0"
  shows "member_of resolved ''source-table'' = table_name tableNames t"
proof -
  from assms(2) have "truthy query" by (cases query) (simp_all split: if_splits)
  from resolveMbql_Some [OF assms(1) this] obtain rest where
    "resolved = JObj (resolved_source_table tableNames query @ rest)" by blast
  with assms(2,3) show ?thesis by (simp add: resolved_source_table_def)
qed

text \<open>
  C6, as the code has it. A field reference whose numeric id is not in the field lookup
  resolves to the name \<^verbatim>\<open>"field_" + id\<close>. A numeric \<^verbatim>\<open>source-table\<close> whose id is not in the
  table names resolves to \<^verbatim>\<open>"table_" + id\<close>: at the top of a query when the id is not 0, and in
  a join for every id.
\<close>

theorem unknown_id_fallback:
  "(idx ref 0 = JStr ''field'' \<and> idx ref 1 = JNum n
      \<and> map_of fieldLookup (num_to_string n) = None \<longrightarrow>
    (\<exists>rest. resolveFieldRef fieldLookup (JArr ref)
       = JArr (JStr ''field'' # JStr (''field_'' @ num_to_string n) # rest)))
   \<and> (member_of query ''source-table'' = JNum t \<and> t \<noteq> 0 \<and> map_of tableNames t = None
      \<and> resolveMbql tableNames fieldLookup query = Some resolved \<longrightarrow>
    member_of resolved ''source-table'' = JStr (''table_'' @ num_to_string t))
   \<and> (member_of j ''source-table'' = JNum t \<and> map_of tableNames t = None
      \<and> resolve_join tableNames fieldLookup j = Some resolved_j \<longrightarrow>
    member_of resolved_j ''source-table'' = JStr (''table_'' @ num_to_string t))"
proof -
  have a: "\<exists>rest. resolveFieldRef fieldLookup (JArr ref)
       = JArr (JStr ''field'' # JStr (''field_'' @ num_to_string n) # rest)"
    if "idx ref 0 = JStr ''field'' \<and> idx ref 1 = JNum n"
      and "map_of fieldLookup (num_to_string n) = None"
  proof -
    from that(1) have "field_ref_id ref = Some n" using field_ref_id_Some by blast
    with field_name_absent [OF that(2)] show ?thesis by simp
  qed
  have b: "member_of resolved ''source-table'' = JStr (''table_'' @ num_to_string t)"
    if m: "member_of query ''source-table'' = JNum t" and "t \<noteq> 0" and "map_of tableNames t = None"
      and r: "resolveMbql tableNames fieldLookup query = Some resolved"
    using resolveMbql_source_table [OF r m that(2)] table_name_absent [OF that(3)] by simp
  have c: "member_of resolved_j ''source-table'' = JStr (''table_'' @ num_to_string t)"
    if "member_of j ''source-table'' = JNum t" and "map_of tableNames t = None"
      and "resolve_join tableNames fieldLookup j = Some resolved_j"
    using that table_name_absent [OF that(2)]
    by (auto simp: resolve_join_def map_of_assign split: if_splits)
  from a b c show ?thesis by blast
qed


lemma ex_unknown_source_resolved:
  "resolveMbql ex_tableNames ex_fieldLookup (JObj [(''source-table'', JNum 777)])
     = Some (JObj [(''source-table'', JStr ''table_777'')])"
  by code_simp

lemma ex_join_resolved: "resolve_join ex_tableNames ex_fieldLookup ex_join = Some ex_resolved_join"
  by code_simp

theorem unknown_id_fallback_witness:
  "map_of ex_fieldLookup (num_to_string 999) = None
   \<and> resolveFieldRef ex_fieldLookup (JArr [JStr ''field'', JNum 999])
       = JArr [JStr ''field'', JStr ''field_999'']
   \<and> map_of ex_tableNames 777 = None
   \<and> resolveMbql ex_tableNames ex_fieldLookup (JObj [(''source-table'', JNum 777)])
       = Some (JObj [(''source-table'', JStr ''table_777'')])
   \<and> member_of (JObj [(''source-table'', JStr ''table_777'')]) ''source-table'' = JStr ''table_777''
   \<and> resolve_join ex_tableNames ex_fieldLookup ex_join = Some ex_resolved_join
   \<and> member_of ex_resolved_join ''source-table'' = JStr ''table_777''"
proof -
  have f: "map_of ex_fieldLookup (num_to_string 999) = None"
    by (simp add: ex_fieldLookup_def num_to_string_999)
  have t: "map_of ex_tableNames 777 = None"
    by (simp add: ex_tableNames_def)
  have j: "member_of ex_join ''source-table'' = JNum 777"
    by (simp add: ex_join_def)
  note w = unknown_id_fallback [where ref = "[JStr ''field'', JNum 999]" and n = 999
      and fieldLookup = ex_fieldLookup and query = "JObj [(''source-table'', JNum 777)]"
      and t = 777 and tableNames = ex_tableNames
      and resolved = "JObj [(''source-table'', JStr ''table_777'')]"
      and j = ex_join and resolved_j = ex_resolved_join]
  from w f have "\<exists>rest. resolveFieldRef ex_fieldLookup (JArr [JStr ''field'', JNum 999])
       = JArr (JStr ''field'' # JStr (''field_'' @ num_to_string 999) # rest)"
    by simp
  then have a: "resolveFieldRef ex_fieldLookup (JArr [JStr ''field'', JNum 999])
       = JArr [JStr ''field'', JStr ''field_999'']"
    by (auto simp: field_ref_id_def num_to_string_999)
  from w t ex_unknown_source_resolved
  have b: "member_of (JObj [(''source-table'', JStr ''table_777'')]) ''source-table''
       = JStr (''table_'' @ num_to_string 777)"
    by simp
  from w t j ex_join_resolved
  have c: "member_of ex_resolved_join ''source-table'' = JStr (''table_'' @ num_to_string 777)"
    by simp
  from f a t b c ex_unknown_source_resolved ex_join_resolved show ?thesis
    by (simp add: num_to_string_777)
qed

lemma ex_zero_source_queries:
  "get_dashboard_queries ex_zero_source_client 6 = ([], Some ex_zero_source_output)"
  by code_simp

text \<open>
  C6 as stated fails for the id 0: at the top of a query a \<^verbatim>\<open>source-table\<close> of 0, which is
  not in the table names, is left out of the resolved query instead of resolving to
  \<^verbatim>\<open>"table_0"\<close>; the extractor's summary of such a card has no \<^verbatim>\<open>source-table\<close>.
\<close>

theorem source_table_zero_counterexample:
  "member_of (JObj [(''source-table'', JNum 0), (''limit'', JNum 5)]) ''source-table'' = JNum 0
   \<and> map_of ex_tableNames 0 = None
   \<and> resolveMbql ex_tableNames ex_fieldLookup (JObj [(''source-table'', JNum 0), (''limit'', JNum 5)])
       = Some (JObj [(''limit'', JNum 5)])
   \<and> member_of (JObj [(''limit'', JNum 5)]) ''source-table'' \<noteq> JStr ''table_0''
   \<and> dashcards_of ex_zero_source_dashboard
       = [mbql_dashcard 1 (JObj [(''source-table'', JNum 0), (''limit'', JNum 5)])]
   \<and> get_dashboard_queries ex_zero_source_client 6 = ([], Some ex_zero_source_output)
   \<and> member_of ex_zero_source_output ''cards''
       = JArr [JObj [(''dashcard_id'', JNum 1), (''card_id'', JNum 101), (''card_name'', JStr ''Orders''),
                     (''tab'', JNull), (''query_type'', JStr ''mbql''), (''database_id'', JNum 1),
                     (''mbql'', JObj [(''limit'', JNum 5)])]]"
  using ex_zero_source_queries
  by (simp add: resolveMbql_def mapped_member_def resolved_joins_def resolved_source_table_def
      resolved_filter_def copied_limit_def resolved_expressions_def ex_tableNames_def
      dashcards_of_def ex_zero_source_dashboard_def elements_def ex_zero_source_output_def)

subsection \<open>The dashboard query extractor\<close>

lemma member_of_defined:
  "member_of v k \<noteq> JUndefined \<Longrightarrow> truthy v \<and> \<not> nullish v"
  by (cases v) (simp_all add: nullish_def)

lemma member_of_or_else_empty:
  "member_of (or_else v (JObj [])) k = member_of v k"
  by (cases v) (simp_all add: or_else_def)

lemma native_card_summary:
  assumes "truthy (member_of dc ''card_id'')"
    and "member_of (member_of dc ''card'') ''dataset_query'' = datasetQuery"
    and "member_of datasetQuery ''type'' = JStr ''native''"
    and "member_of datasetQuery ''native'' = native"
  shows "card_summary tabLookup tableNames fieldLookup dc = Some (JObj
             [(''dashcard_id'', member_of dc ''id''),
              (''card_id'', member_of dc ''card_id''),
              (''card_name'', or_else (member_of (member_of dc ''card'') ''name'') (JStr ''(unnamed)'')),
              (''tab'', if truthy (member_of dc ''dashboard_tab_id'')
                        then lookup tabLookup (to_string (member_of dc ''dashboard_tab_id''))
                        else JNull),
              (''query_type'', JStr ''native''),
              (''database_id'', member_of datasetQuery ''database''),
              (''sql'', or_else (member_of native ''query'') JNull),
              (''template_tags'',
                 if truthy (member_of native ''template-tags'')
                 then JArr (map (\<lambda>kv. JStr (fst kv))
                              (own_entries (member_of native ''template-tags'')))
                 else JArr [])])"
proof -
  have dq: "truthy datasetQuery"
    using assms(3) member_of_defined [of datasetQuery "''type''"] by simp
  with assms(2) have "member_of (member_of dc ''card'') ''dataset_query'' \<noteq> JUndefined"
    by auto
  then have c: "truthy (member_of dc ''card'')"
    using member_of_defined by blast
  then have "member_of dc ''card'' \<noteq> JUndefined" by auto
  then have d: "\<not> nullish dc" using member_of_defined by blast
  have c': "or_else (member_of dc ''card'') (JObj []) = member_of dc ''card''"
    using c by (simp add: or_else_def)
  have dq': "or_else datasetQuery (JObj []) = datasetQuery"
    using dq by (simp add: or_else_def)
  show ?thesis
    unfolding card_summary_def read_member_def
    using d assms(1)
    by (simp only: if_False if_True bind.bind_lunit Let_def c' assms(2) dq' assms(3) assms(4)
        member_of_or_else_empty not_True_eq_False refl)
qed

text \<open>
  C3, as the code has it. For every dashcard classified as a native card (truthy
  \<^verbatim>\<open>card_id\<close>, \<^verbatim>\<open>dataset_query.type\<close> equal to \<^verbatim>\<open>"native"\<close>) the summary exists and has
  \<^verbatim>\<open>query_type\<close> \<^verbatim>\<open>"native"\<close>; its \<^verbatim>\<open>sql\<close> is the string \<^verbatim>\<open>dataset_query.native.query\<close> itself for
  every non-empty string, and \<^verbatim>\<open>null\<close> for the empty string; its \<^verbatim>\<open>template_tags\<close> are the keys
  of \<^verbatim>\<open>native["template-tags"]\<close> in order, without their definitions, and the empty list
  when that member is absent or \<^verbatim>\<open>null\<close>.
\<close>

theorem native_summary:
  assumes "truthy (member_of dc ''card_id'')"
    and "member_of (member_of dc ''card'') ''dataset_query'' = datasetQuery"
    and "member_of datasetQuery ''type'' = JStr ''native''"
    and "member_of datasetQuery ''native'' = native"
  shows "\<exists>summary. card_summary tabLookup tableNames fieldLookup dc = Some summary
     \<and> member_of summary ''query_type'' = JStr ''native''
     \<and> (\<forall>s. member_of native ''query'' = JStr s \<and> s \<noteq> [] \<longrightarrow>
           member_of summary ''sql'' = JStr s)
     \<and> (member_of native ''query'' = JStr [] \<longrightarrow> member_of summary ''sql'' = JNull)
     \<and> (\<forall>tags. member_of native ''template-tags'' = JObj tags \<longrightarrow>
           member_of summary ''template_tags'' = JArr (map (\<lambda>kv. JStr (fst kv)) tags))
     \<and> (nullish (member_of native ''template-tags'') \<longrightarrow>
           member_of summary ''template_tags'' = JArr [])"
  unfolding native_card_summary [OF assms]
  by (auto simp: or_else_def own_entries_def nullish_def simp del: member_of.simps(2-))

lemma ex_native_summary:
  "card_summary [] ex_tableNames ex_fieldLookup (native_dashcard sql)
     = Some (JObj [(''dashcard_id'', JNum 3), (''card_id'', JNum 13),
                   (''card_name'', JStr ''Revenue''), (''tab'', JNull),
                   (''query_type'', JStr ''native''), (''database_id'', JNum 1),
                   (''sql'', if sql = [] then JNull else JStr sql),
                   (''template_tags'', JArr [JStr ''since'', JStr ''region''])])"
  by (simp add: card_summary_def native_dashcard_def read_member_def nullish_def or_else_def
      own_entries_def)

theorem native_summary_witness:
  "truthy (member_of (native_dashcard ''SELECT 1'') ''card_id'')
   \<and> (\<exists>summary. card_summary [] ex_tableNames ex_fieldLookup (native_dashcard ''SELECT 1'') = Some summary
        \<and> member_of summary ''sql'' = JStr ''SELECT 1''
        \<and> member_of summary ''template_tags'' = JArr [JStr ''since'', JStr ''region''])"
proof -
  have c: "truthy (member_of (native_dashcard ''SELECT 1'') ''card_id'')"
    by (simp add: native_dashcard_def)
  have t: "member_of (member_of (member_of (native_dashcard ''SELECT 1'') ''card'') ''dataset_query'') ''type''
      = JStr ''native''"
    by (simp add: native_dashcard_def)
  have q: "member_of (member_of (member_of (member_of (native_dashcard ''SELECT 1'') ''card'')
      ''dataset_query'') ''native'') ''query'' = JStr ''SELECT 1''"
    by (simp add: native_dashcard_def)
  have g: "member_of (member_of (member_of (member_of (native_dashcard ''SELECT 1'') ''card'')
      ''dataset_query'') ''native'') ''template-tags''
        = JObj [(''since'', JObj [(''type'', JStr ''date'')]),
                (''region'', JObj [(''type'', JStr ''text'')])]"
    by (simp add: native_dashcard_def)
  from native_summary [OF c refl t refl, of "[]" ex_tableNames ex_fieldLookup]
  obtain summary where
    s: "card_summary [] ex_tableNames ex_fieldLookup (native_dashcard ''SELECT 1'') = Some summary"
    and "\<forall>s. member_of (member_of (member_of (member_of (native_dashcard ''SELECT 1'') ''card'')
      ''dataset_query'') ''native'') ''query'' = JStr s \<and> s \<noteq> [] \<longrightarrow>
           member_of summary ''sql'' = JStr s"
    and "\<forall>tags. member_of (member_of (member_of (member_of (native_dashcard ''SELECT 1'') ''card'')
      ''dataset_query'') ''native'') ''template-tags'' = JObj tags \<longrightarrow>
           member_of summary ''template_tags'' = JArr (map (\<lambda>kv. JStr (fst kv)) tags)"
    by blast
  with q g have "member_of summary ''sql'' = JStr ''SELECT 1''"
    "member_of summary ''template_tags'' = JArr [JStr ''since'', JStr ''region'']"
    by simp_all
  with c s show ?thesis by blast
qed

text \<open>
  C3 as stated fails for the empty string: the native card whose query is the empty string
  has the \<^verbatim>\<open>sql\<close> member \<^verbatim>\<open>null\<close>.
\<close>

theorem empty_sql_counterexample:
  "member_of (member_of (member_of (member_of (native_dashcard []) ''card'') ''dataset_query'')
      ''native'') ''query'' = JStr []
   \<and> card_summary [] ex_tableNames ex_fieldLookup (native_dashcard [])
       = Some (JObj [(''dashcard_id'', JNum 3), (''card_id'', JNum 13),
                     (''card_name'', JStr ''Revenue''), (''tab'', JNull),
                     (''query_type'', JStr ''native''), (''database_id'', JNum 1),
                     (''sql'', JNull),
                     (''template_tags'', JArr [JStr ''since'', JStr ''region''])])"
  by (simp add: ex_native_summary) (simp add: native_dashcard_def)

subsection \<open>The filter connectivity auditor\<close>

lemma has_stage_number_iff:
  "has_stage_number t \<longleftrightarrow> (\<exists>kvs. t = JObj kvs \<and> ''stage-number'' \<in> fst ` set kvs)"
  by (cases t) (simp_all add: has_stage_number_def typeof_object_def)

lemma mapping_errors_cases:
  "(\<not> truthy (member_of m ''target'') \<longrightarrow> mapping_errors m = [no_target_message m])
   \<and> (\<forall>target. member_of m ''target'' = JArr target \<and> idx target 0 = JStr ''dimension'' \<longrightarrow>
        (if \<exists>t \<in> set target. \<exists>kvs. t = JObj kvs \<and> ''stage-number'' \<in> fst ` set kvs
         then mapping_errors m = []
         else mapping_errors m = [missing_stage_message m]))
   \<and> (truthy (member_of m ''target'')
        \<and> \<not> (\<exists>target. member_of m ''target'' = JArr target \<and> idx target 0 = JStr ''dimension'') \<longrightarrow>
        mapping_errors m = [])"
proof -
  have a: "mapping_errors m = [no_target_message m]" if "\<not> truthy (member_of m ''target'')"
    using that by (simp add: mapping_errors_def)
  have b: "if \<exists>t \<in> set target. \<exists>kvs. t = JObj kvs \<and> ''stage-number'' \<in> fst ` set kvs
         then mapping_errors m = []
         else mapping_errors m = [missing_stage_message m]"
    if "member_of m ''target'' = JArr target" and "idx target 0 = JStr ''dimension''" for target
    using that by (simp add: mapping_errors_def list_ex_iff has_stage_number_iff)
  have c: "mapping_errors m = []"
    if "truthy (member_of m ''target'')"
      and "\<not> (\<exists>target. member_of m ''target'' = JArr target \<and> idx target 0 = JStr ''dimension'')"
    using that by (cases "member_of m ''target''") (simp_all add: mapping_errors_def)
  from a b c show ?thesis by blast
qed

lemma ex_no_stage:
  "mapping_errors (ex_mapping [JStr ''dimension'', JArr [JStr ''field'', JNum 10, JNull]])
     = [''Parameter '' @ [CHR 0x27] @ ''p1'' @ [CHR 0x27]
        @ '' missing stage-number (MBQL cards require this)'']"
  by (simp add: mapping_errors_def ex_mapping_def missing_stage_message_def has_stage_number_def
      typeof_object_def)

lemma those_map_Some:
  "those (map f xs) = Some ys \<longleftrightarrow> list_all2 (\<lambda>x y. f x = Some y) xs ys"
proof (induction xs arbitrary: ys)
  case Nil
  then show ?case by auto
next
  case (Cons x xs)
  then show ?case
    by (cases ys) (auto split: option.splits)
qed

lemma or_else_array:
  "as_array (or_else v (JArr [])) = Some xs \<Longrightarrow> xs = elements v"
  by (cases v) (auto simp: as_array_def or_else_def elements_def split: if_splits)

lemma same_value_zero_primitive:
  "is_primitive v \<Longrightarrow> same_value_zero u v \<longleftrightarrow> u = v"
  by (cases u; cases v) (simp_all add: same_value_zero_def is_primitive_def)

lemma includes_val_primitive:
  "is_primitive v \<Longrightarrow> includes_val xs v \<longleftrightarrow> v \<in> set xs"
  by (auto simp: includes_val_def list_ex_iff same_value_zero_primitive)

lemma audit_card_Some:
  assumes "audit_card parameterIds dc = Some c"
  shows "connected_params c = map (\<lambda>m. member_of m ''parameter_id'') (mappings_of dc)
     \<and> missing_params c = filter (\<lambda>pid. \<not> includes_val (connected_params c) pid) parameterIds
     \<and> errors c = concat (map mapping_errors (mappings_of dc))"
proof -
  from assms obtain mappings connectedParams where
    m: "as_array (or_else (member_of dc ''parameter_mappings'') (JArr [])) = Some mappings"
    and cp: "those (map (\<lambda>m. read_member m ''parameter_id'') mappings) = Some connectedParams"
    and c: "connected_params c = connectedParams"
      "missing_params c = filter (\<lambda>pid. \<not> includes_val connectedParams pid) parameterIds"
      "errors c = concat (map mapping_errors mappings)"
    unfolding audit_card_def by (auto split: bind_splits simp: Let_def)
  from m have ms: "mappings = mappings_of dc"
    unfolding mappings_of_def by (rule or_else_array)
  from cp have "list_all2 (\<lambda>m y. read_member m ''parameter_id'' = Some y) mappings connectedParams"
    by (simp add: those_map_Some)
  then have "connectedParams = map (\<lambda>m. member_of m ''parameter_id'') mappings"
    by (induction rule: list_all2_induct) (auto simp: read_member_def split: if_splits)
  with c ms show ?thesis by simp
qed


text \<open>
  C7. When the audit of a dashboard returns, with parameter ids that are strings (or other
  values compared by value): the parameter ids are the \<^verbatim>\<open>id\<close> of every dashboard parameter in
  order; for every dashcard, in order, \<^verbatim>\<open>connected_params\<close> is the \<^verbatim>\<open>parameter_id\<close> of every
  entry of its \<^verbatim>\<open>parameter_mappings\<close> (none when the member is absent), \<^verbatim>\<open>missing_params\<close> is
  the parameter ids without the connected ones, in the dashboard's order, and \<^verbatim>\<open>errors\<close>
  collects the errors of its mappings; the cards needing attention are the cards, in order,
  whose missing parameters or errors are not empty, so a card is among them if and only if
  one of the two lists is non-empty.
\<close>

theorem audit_parameters:
  assumes "getDashboard client i = Some dashboard"
    and "audit_dashboard_filters client i = Some report"
    and "\<forall>p \<in> set (parameter_ids report). is_primitive p"
  shows "parameter_ids report = map (\<lambda>p. member_of p ''id'') (parameters_of dashboard)
     \<and> list_all2
          (\<lambda>dc c. connected_params c = map (\<lambda>m. member_of m ''parameter_id'') (mappings_of dc)
                \<and> missing_params c
                    = filter (\<lambda>pid. pid \<notin> set (connected_params c)) (parameter_ids report)
                \<and> errors c = concat (map mapping_errors (mappings_of dc)))
          (dashcards_of dashboard) (all_cards report)
     \<and> cards_needing_attention report
         = filter (\<lambda>c. missing_params c \<noteq> [] \<or> errors c \<noteq> []) (all_cards report)
     \<and> (\<forall>c \<in> set (all_cards report).
           c \<in> set (cards_needing_attention report)
           \<longleftrightarrow> missing_params c \<noteq> [] \<or> errors c \<noteq> [])"
proof -
  from assms(1,2) obtain dashcards parameters parameterIds cardAudit where
    dcs: "as_array (or_else (member_of dashboard ''dashcards'') (JArr [])) = Some dashcards"
    and ps: "as_array (or_else (member_of dashboard ''parameters'') (JArr [])) = Some parameters"
    and pids: "those (map (\<lambda>p. read_member p ''id'') parameters) = Some parameterIds"
    and ca: "those (map (audit_card parameterIds) dashcards) = Some cardAudit"
    and r: "parameter_ids report = parameterIds" "all_cards report = cardAudit"
      "cards_needing_attention report
         = filter (\<lambda>c. length (missing_params c) > 0 \<or> length (errors c) > 0) cardAudit"
    unfolding audit_dashboard_filters_def
    by (auto split: bind_splits simp: Let_def read_member_def split: if_splits)
  from dcs have d: "dashcards = dashcards_of dashboard"
    unfolding dashcards_of_def by (rule or_else_array)
  from ps have p: "parameters = parameters_of dashboard"
    unfolding parameters_of_def by (rule or_else_array)
  from pids have "list_all2 (\<lambda>p y. read_member p ''id'' = Some y) parameters parameterIds"
    by (simp add: those_map_Some)
  then have 1: "parameterIds = map (\<lambda>p. member_of p ''id'') parameters"
    by (induction rule: list_all2_induct) (auto simp: read_member_def split: if_splits)
  from ca have "list_all2 (\<lambda>dc c. audit_card parameterIds dc = Some c) dashcards cardAudit"
    by (simp add: those_map_Some)
  then have 2: "list_all2
          (\<lambda>dc c. connected_params c = map (\<lambda>m. member_of m ''parameter_id'') (mappings_of dc)
                \<and> missing_params c = filter (\<lambda>pid. pid \<notin> set (connected_params c)) parameterIds
                \<and> errors c = concat (map mapping_errors (mappings_of dc)))
          dashcards cardAudit"
  proof (rule list_all2_mono)
    fix dc c
    assume "audit_card parameterIds dc = Some c"
    from audit_card_Some [OF this] assms(3) r(1)
    show "connected_params c = map (\<lambda>m. member_of m ''parameter_id'') (mappings_of dc)
                \<and> missing_params c = filter (\<lambda>pid. pid \<notin> set (connected_params c)) parameterIds
                \<and> errors c = concat (map mapping_errors (mappings_of dc))"
      by (auto simp: includes_val_primitive intro: filter_cong)
  qed
  have 3: "cards_needing_attention report
         = filter (\<lambda>c. missing_params c \<noteq> [] \<or> errors c \<noteq> []) (all_cards report)"
    using r by simp
  then have 4: "\<forall>c \<in> set (all_cards report).
           c \<in> set (cards_needing_attention report)
           \<longleftrightarrow> missing_params c \<noteq> [] \<or> errors c \<noteq> []"
    by simp
  from 1 2 3 4 r d p show ?thesis by simp
qed

lemma ex_audit_report: "audit_dashboard_filters ex_audit_client 7 = Some ex_report"
  by code_simp

theorem audit_parameters_witness:
  "getDashboard ex_audit_client 7 = Some ex_audit_dashboard
   \<and> audit_dashboard_filters ex_audit_client 7 = Some ex_report
   \<and> list_all is_primitive (parameter_ids ex_report)
   \<and> parameter_ids ex_report = [JStr ''p1'', JStr ''p2'']
   \<and> connected_params ex_card_1 = [JStr ''p1'']
   \<and> missing_params ex_card_1 = [JStr ''p2'']
   \<and> cards_needing_attention ex_report = [ex_card_1]
   \<and> ex_card_2 \<notin> set (cards_needing_attention ex_report)"
proof -
  have g: "getDashboard ex_audit_client 7 = Some ex_audit_dashboard"
    by (simp add: ex_audit_client_def)
  have p: "\<forall>p \<in> set (parameter_ids ex_report). is_primitive p"
    by (simp add: ex_report_def is_primitive_def)
  have ne: "ex_card_1 \<noteq> ex_card_2"
    by (simp add: ex_card_1_def ex_card_2_def)
  from audit_parameters [OF g ex_audit_report p]
  have "cards_needing_attention ex_report
         = filter (\<lambda>c. missing_params c \<noteq> [] \<or> errors c \<noteq> []) (all_cards ex_report)"
    by blast
  then have c: "cards_needing_attention ex_report = [ex_card_1]"
    by (simp add: ex_report_def ex_card_1_def ex_card_2_def)
  with g p ne ex_audit_report show ?thesis
    by (simp add: list_all_iff) (simp add: ex_report_def ex_card_1_def)
qed

lemma audit_cards:
  assumes "getDashboard client i = Some dashboard"
    and "audit_dashboard_filters client i = Some report"
  shows "\<exists>parameterIds.
     list_all2 (\<lambda>dc c. audit_card parameterIds dc = Some c) (dashcards_of dashboard) (all_cards report)"
proof -
  from assms obtain dashcards parameterIds cardAudit where
    dcs: "as_array (or_else (member_of dashboard ''dashcards'') (JArr [])) = Some dashcards"
    and ca: "those (map (audit_card parameterIds) dashcards) = Some cardAudit"
    and r: "all_cards report = cardAudit"
    unfolding audit_dashboard_filters_def
    by (auto split: bind_splits simp: Let_def read_member_def split: if_splits)
  from dcs have "dashcards = dashcards_of dashboard"
    unfolding dashcards_of_def by (rule or_else_array)
  with ca r show ?thesis by (auto simp: those_map_Some)
qed

text \<open>
  C8, as the code has it. In every report of the audit, the errors of a card are those of its
  parameter mappings, in order, and each mapping gives at most one. A mapping whose
  \<^verbatim>\<open>target\<close> is falsy (absent, null, false, 0 or the empty string) gives the error that the
  parameter has no target. A mapping whose \<^verbatim>\<open>target\<close> is a sequence headed by
  \<^verbatim>\<open>"dimension"\<close> gives the error that the parameter misses its stage number exactly when no
  element of the target is an object with a \<^verbatim>\<open>stage-number\<close> key. A truthy target of any other
  shape gives no error. Both messages name the mapping's \<^verbatim>\<open>parameter_id\<close>.
\<close>

theorem audit_mapping_validation:
  assumes "getDashboard client i = Some dashboard"
    and "audit_dashboard_filters client i = Some report"
  shows "list_all2
     (\<lambda>dc c.
        errors c = concat (map mapping_errors (mappings_of dc))
        \<and> (\<forall>m \<in> set (mappings_of dc).
             (\<not> truthy (member_of m ''target'') \<longrightarrow>
                mapping_errors m
                  = [''Parameter '' @ [CHR 0x27] @ to_string (member_of m ''parameter_id'')
                     @ [CHR 0x27] @ '' has no target''])
           \<and> (\<forall>target. member_of m ''target'' = JArr target \<and> idx target 0 = JStr ''dimension'' \<longrightarrow>
                (if \<exists>t \<in> set target. \<exists>kvs. t = JObj kvs \<and> ''stage-number'' \<in> fst ` set kvs
                 then mapping_errors m = []
                 else mapping_errors m
                        = [''Parameter '' @ [CHR 0x27] @ to_string (member_of m ''parameter_id'')
                           @ [CHR 0x27] @ '' missing stage-number (MBQL cards require this)'']))
           \<and> (truthy (member_of m ''target'')
                \<and> \<not> (\<exists>target. member_of m ''target'' = JArr target \<and> idx target 0 = JStr ''dimension'')
                \<longrightarrow> mapping_errors m = [])))
     (dashcards_of dashboard) (all_cards report)"
proof -
  from audit_cards [OF assms] obtain parameterIds where
    "list_all2 (\<lambda>dc c. audit_card parameterIds dc = Some c) (dashcards_of dashboard) (all_cards report)"
    by blast
  then show ?thesis
  proof (rule list_all2_mono)
    fix dc c
    assume "audit_card parameterIds dc = Some c"
    from audit_card_Some [OF this]
    have e: "errors c = concat (map mapping_errors (mappings_of dc))" by simp
    have "(\<not> truthy (member_of m ''target'') \<longrightarrow>
                mapping_errors m
                  = [''Parameter '' @ [CHR 0x27] @ to_string (member_of m ''parameter_id'')
                     @ [CHR 0x27] @ '' has no target''])
           \<and> (\<forall>target. member_of m ''target'' = JArr target \<and> idx target 0 = JStr ''dimension'' \<longrightarrow>
                (if \<exists>t \<in> set target. \<exists>kvs. t = JObj kvs \<and> ''stage-number'' \<in> fst ` set kvs
                 then mapping_errors m = []
                 else mapping_errors m
                        = [''Parameter '' @ [CHR 0x27] @ to_string (member_of m ''parameter_id'')
                           @ [CHR 0x27] @ '' missing stage-number (MBQL cards require this)'']))
           \<and> (truthy (member_of m ''target'')
                \<and> \<not> (\<exists>target. member_of m ''target'' = JArr target \<and> idx target 0 = JStr ''dimension'')
                \<longrightarrow> mapping_errors m = [])" for m
      by (rule mapping_errors_cases [of m, unfolded no_target_message_def missing_stage_message_def])
    with e show "errors c = concat (map mapping_errors (mappings_of dc))
        \<and> (\<forall>m \<in> set (mappings_of dc).
             (\<not> truthy (member_of m ''target'') \<longrightarrow>
                mapping_errors m
                  = [''Parameter '' @ [CHR 0x27] @ to_string (member_of m ''parameter_id'')
                     @ [CHR 0x27] @ '' has no target''])
           \<and> (\<forall>target. member_of m ''target'' = JArr target \<and> idx target 0 = JStr ''dimension'' \<longrightarrow>
                (if \<exists>t \<in> set target. \<exists>kvs. t = JObj kvs \<and> ''stage-number'' \<in> fst ` set kvs
                 then mapping_errors m = []
                 else mapping_errors m
                        = [''Parameter '' @ [CHR 0x27] @ to_string (member_of m ''parameter_id'')
                           @ [CHR 0x27] @ '' missing stage-number (MBQL cards require this)'']))
           \<and> (truthy (member_of m ''target'')
                \<and> \<not> (\<exists>target. member_of m ''target'' = JArr target \<and> idx target 0 = JStr ''dimension'')
                \<longrightarrow> mapping_errors m = []))"
      by blast
  qed
qed

lemma list_all2_maps:
  "list_all2 (\<lambda>x y. g y = f x) xs ys \<Longrightarrow> map g ys = map f xs"
  by (induction rule: list_all2_induct) simp_all

lemma ex_stage_audit: "audit_dashboard_filters ex_stage_client 8 = Some ex_stage_report"
  by code_simp

theorem audit_mapping_validation_witness:
  "getDashboard ex_stage_client 8 = Some ex_stage_dashboard
   \<and> audit_dashboard_filters ex_stage_client 8 = Some ex_stage_report
   \<and> map errors (all_cards ex_stage_report)
       = map (\<lambda>dc. concat (map mapping_errors (mappings_of dc))) (dashcards_of ex_stage_dashboard)
   \<and> map errors (all_cards ex_stage_report) = [[ex_missing_stage], [], [ex_no_target]]
   \<and> mapping_errors ex_dimension_mapping = [ex_missing_stage]
   \<and> mapping_errors ex_staged_mapping = []
   \<and> mapping_errors ex_untargeted_mapping = [ex_no_target]
   \<and> mapping_errors ex_variable_mapping = []"
proof -
  have g: "getDashboard ex_stage_client 8 = Some ex_stage_dashboard"
    by (simp add: ex_stage_client_def)
  have d: "dashcards_of ex_stage_dashboard
             = [audit_dashcard 1 [ex_dimension_mapping], audit_dashcard 2 [ex_staged_mapping],
                audit_dashcard 3 [ex_untargeted_mapping, ex_variable_mapping]]"
    by (simp add: dashcards_of_def ex_stage_dashboard_def elements_def)
  have m: "mappings_of (audit_dashcard k ms) = ms" for k ms
    by (simp add: mappings_of_def audit_dashcard_def elements_def)
  have c: "all_cards ex_stage_report
             = [audited_card 1 [JStr ''p1''] [ex_missing_stage], audited_card 2 [JStr ''p1''] [],
                audited_card 3 [JStr ''p1'', JStr ''p1''] [ex_no_target]]"
    by (simp add: ex_stage_report_def)
  have e: "errors (audited_card k ps es) = es" for k ps es
    by (simp add: audited_card_def)
  note v = audit_mapping_validation [OF g ex_stage_audit]
  from v have "list_all2 (\<lambda>dc c. errors c = concat (map mapping_errors (mappings_of dc)))
     (dashcards_of ex_stage_dashboard) (all_cards ex_stage_report)"
    by (rule list_all2_mono) blast
  then have 1: "map errors (all_cards ex_stage_report)
       = map (\<lambda>dc. concat (map mapping_errors (mappings_of dc))) (dashcards_of ex_stage_dashboard)"
    by (rule list_all2_maps)
  have 2: "map errors (all_cards ex_stage_report) = [[ex_missing_stage], [], [ex_no_target]]"
    by (simp add: c e)
  have p: "to_string (member_of ex_dimension_mapping ''parameter_id'') = ''p1''"
    "to_string (member_of ex_untargeted_mapping ''parameter_id'') = ''p1''"
    by (simp_all add: ex_dimension_mapping_def ex_untargeted_mapping_def ex_mapping_def)
  have t1: "member_of ex_dimension_mapping ''target''
              = JArr [JStr ''dimension'', JArr [JStr ''field'', JNum 10, JNull]]
            \<and> idx [JStr ''dimension'', JArr [JStr ''field'', JNum 10, JNull]] 0 = JStr ''dimension''"
    by (simp add: ex_dimension_mapping_def ex_mapping_def idx_def)
  have t2: "member_of ex_staged_mapping ''target''
              = JArr [JStr ''dimension'', JArr [JStr ''field'', JNum 10, JNull],
                      JObj [(''stage-number'', JNum 0)]]
            \<and> idx [JStr ''dimension'', JArr [JStr ''field'', JNum 10, JNull],
                    JObj [(''stage-number'', JNum 0)]] 0 = JStr ''dimension''"
    by (simp add: ex_staged_mapping_def ex_mapping_def idx_def)
  have t3: "\<not> truthy (member_of ex_untargeted_mapping ''target'')"
    by (simp add: ex_untargeted_mapping_def)
  have t4: "truthy (member_of ex_variable_mapping ''target'')
            \<and> \<not> (\<exists>target. member_of ex_variable_mapping ''target'' = JArr target
                     \<and> idx target 0 = JStr ''dimension'')"
    by (simp add: ex_variable_mapping_def ex_mapping_def idx_def)
  from v have 3: "mapping_errors ex_dimension_mapping = [ex_missing_stage]"
    using t1 by (simp add: d c m p ex_missing_stage_def)
  from v have 4: "mapping_errors ex_staged_mapping = []"
    using t2 by (simp add: d c m)
  from v have 5: "mapping_errors ex_untargeted_mapping = [ex_no_target]"
    using t3 by (simp add: d c m p ex_no_target_def)
  from v have 6: "mapping_errors ex_variable_mapping = []"
    using t4 by (simp add: d c m)
  from g ex_stage_audit 1 2 3 4 5 6 show ?thesis by blast
qed

text \<open>
  C8 as stated fails for a target that is present but falsy: a mapping whose target is the number
  0 is neither without a target nor a "dimension" sequence, yet the audit reports that the
  parameter has no target.
\<close>

theorem falsy_target_counterexample:
  "member_of ex_zero_mapping ''target'' = JNum 0
   \<and> mappings_of (audit_dashcard 1 [ex_zero_mapping]) = [ex_zero_mapping]
   \<and> dashcards_of ex_zero_dashboard = [audit_dashcard 1 [ex_zero_mapping]]
   \<and> getDashboard ex_stage_client 9 = Some ex_zero_dashboard
   \<and> audit_dashboard_filters ex_stage_client 9 = Some ex_zero_report
   \<and> map errors (all_cards ex_zero_report) = [[ex_no_target]]
   \<and> mapping_errors ex_zero_mapping = [ex_no_target]"
  by code_simp

lemma as_array_default:
  "as_array (or_else v (JArr [])) = (if sequence_or_absent v then Some (elements v) else None)"
  by (cases v) (simp_all add: as_array_def or_else_def sequence_or_absent_def elements_def)

lemma those_read_members:
  "those (map (\<lambda>x. read_member x k) xs)
     = (if list_all (\<lambda>x. \<not> nullish x) xs then Some (map (\<lambda>x. member_of x k) xs) else None)"
  by (induction xs) (auto simp: read_member_def)

lemma those_None: "those xs = None \<longleftrightarrow> None \<in> set xs"
  by (induction xs) (auto split: option.splits)

lemma audit_card_None:
  "audit_card parameterIds dc = None
   \<longleftrightarrow> \<not> (\<not> nullish dc \<and> sequence_or_absent (member_of dc ''parameter_mappings'')
           \<and> list_all (\<lambda>m. \<not> nullish m) (mappings_of dc))"
proof (cases "nullish dc")
  case True
  then show ?thesis by (simp add: audit_card_def read_member_def)
next
  case False
  then have r: "read_member dc ''card'' = Some (member_of dc ''card'')"
    by (simp add: read_member_def)
  show ?thesis
    unfolding audit_card_def r
    using False
    by (simp add: as_array_default those_read_members mappings_of_def Let_def)
qed

text \<open>
  The audit throws exactly when the dashboard cannot be fetched or is not \<open>auditable\<close>; on
  every other dashboard it returns a report.
\<close>

lemma audit_throws_iff:
  "audit_dashboard_filters client i = None
   \<longleftrightarrow> (case getDashboard client i of None \<Rightarrow> True | Some dashboard \<Rightarrow> \<not> auditable dashboard)"
proof (cases "getDashboard client i")
  case None
  then show ?thesis by (simp add: audit_dashboard_filters_def)
next
  case (Some dashboard)
  have c: "those (map (audit_card parameterIds) dcs) = None
      \<longleftrightarrow> \<not> list_all (\<lambda>dc. \<not> nullish dc
                        \<and> sequence_or_absent (member_of dc ''parameter_mappings'')
                        \<and> list_all (\<lambda>m. \<not> nullish m) (mappings_of dc)) dcs" for parameterIds dcs
    using audit_card_None [of parameterIds]
    by (auto simp: those_None list_all_iff image_iff eq_commute [of None])
  show ?thesis
  proof (cases "nullish dashboard")
    case True
    then show ?thesis
      by (simp add: audit_dashboard_filters_def Some read_member_def auditable_def)
  next
    case False
    then have r: "read_member dashboard ''dashcards'' = Some (member_of dashboard ''dashcards'')"
      by (simp add: read_member_def)
    show ?thesis
      unfolding audit_dashboard_filters_def auditable_def
      using False
      by (simp add: Some r as_array_default those_read_members
          dashcards_of_def [symmetric] parameters_of_def [symmetric] bind_eq_None_conv Let_def c)
  qed
qed

subsection \<open>The metadata loop\<close>

lemma fetch_table_calls: "calls (fetch_table fetcher k st) = calls st @ [k]"
  by (simp add: fetch_table_def Let_def split: option.splits)

lemma fetch_table_names:
  "k \<notin> fst ` set (table_names st) \<Longrightarrow>
   table_names (fetch_table fetcher k st) = table_names st @ [(k, bound_name fetcher k)]"
  by (simp add: fetch_table_def Let_def bound_name_def assign_fresh split: option.splits)

lemma fetch_table_metadata:
  "k \<notin> fst ` set (table_metadata st) \<Longrightarrow>
   table_metadata (fetch_table fetcher k st)
     = table_metadata st @ (case fetcher k of None \<Rightarrow> [] | Some m \<Rightarrow> [(k, m)])"
  by (simp add: fetch_table_def Let_def assign_fresh split: option.splits)

lemma fold_fetch_table:
  "distinct ids \<Longrightarrow> set ids \<inter> fst ` set (table_names st) = {} \<Longrightarrow>
   set ids \<inter> fst ` set (table_metadata st) = {} \<Longrightarrow>
   calls (fold (fetch_table fetcher) ids st) = calls st @ ids
   \<and> table_names (fold (fetch_table fetcher) ids st)
       = table_names st @ map (\<lambda>k. (k, bound_name fetcher k)) ids
   \<and> table_metadata (fold (fetch_table fetcher) ids st)
       = table_metadata st @ concat (map (\<lambda>k. case fetcher k of None \<Rightarrow> [] | Some m \<Rightarrow> [(k, m)]) ids)"
proof (induction ids arbitrary: st)
  case Nil
  then show ?case by simp
next
  case (Cons k ids)
  let ?st = "fetch_table fetcher k st"
  from Cons.prems have k: "k \<notin> fst ` set (table_names st)" "k \<notin> fst ` set (table_metadata st)"
    by auto
  have n: "table_names ?st = table_names st @ [(k, bound_name fetcher k)]"
    using k by (simp add: fetch_table_names)
  have m: "table_metadata ?st
     = table_metadata st @ (case fetcher k of None \<Rightarrow> [] | Some m \<Rightarrow> [(k, m)])"
    using k by (simp add: fetch_table_metadata)
  have "set ids \<inter> fst ` set (table_names ?st) = {}" "set ids \<inter> fst ` set (table_metadata ?st) = {}"
    using Cons.prems by (auto simp: n m split: option.splits)
  with Cons.IH [of ?st] Cons.prems(1) show ?case
    by (simp add: n m fetch_table_calls)
qed

lemma fetch_all_result:
  assumes "distinct ids"
  shows "calls (fetch_all fetcher ids) = ids"
    and "table_names (fetch_all fetcher ids) = map (\<lambda>k. (k, bound_name fetcher k)) ids"
    and "table_metadata (fetch_all fetcher ids)
       = concat (map (\<lambda>k. case fetcher k of None \<Rightarrow> [] | Some m \<Rightarrow> [(k, m)]) ids)"
  using fold_fetch_table [OF assms, of "\<lparr>calls = [], table_metadata = [], table_names = []\<rparr>" fetcher]
  by (simp_all add: fetch_all_def)


text \<open>
  After the metadata loop every collected id has a truthy name, so within the tool the
  \<^verbatim>\<open>"table_" + id\<close> fallback of the resolver is not taken for a collected id.
\<close>

lemma bound_name_truthy: "truthy (bound_name fetcher k)"
  by (simp add: bound_name_def unknown_table_def qualified_name_def or_else_def Let_def
      split: option.splits)

lemma map_of_bound: "map_of (map (\<lambda>k. (k, g k)) ids) u = (if u \<in> set ids then Some (g u) else None)"
  by (induction ids) auto

lemma collected_ids_named:
  "distinct ids \<Longrightarrow> k \<in> set ids \<Longrightarrow>
   table_name (table_names (fetch_all fetcher ids)) k = bound_name fetcher k"
  using bound_name_truthy [of fetcher k]
  by (simp add: fetch_all_result(2) table_name_def lookup_def map_of_bound or_else_def)


















subsection \<open>A failed metadata fetch\<close>
































end
